theory Spec2Isabelle
  imports Complex_Main "HOL-Library.Finite_Map" "HOL-Library.AList" "HOL-Library.Sublist"
    "HOL-Library.Multiset"
begin

section \<open>Python values\<close>

text \<open>
  The client of \<^verbatim>\<open>src/apollo_configs/client.py\<close> handles values that come out of
  \<^verbatim>\<open>response.json()\<close>, \<^verbatim>\<open>json.load\<close> and \<^verbatim>\<open>yaml.safe_load\<close>. \<^verbatim>\<open>None\<close> is \<open>JNull\<close>. A number
  is given by its value: \<open>JNum\<close> holds the integers and the finite floats (\<^verbatim>\<open>1 == 1.0\<close>,
  and \<^verbatim>\<open>True\<close> and \<^verbatim>\<open>False\<close> are the integers 1 and 0, as \<^verbatim>\<open>bool\<close> is a subclass of
  \<^verbatim>\<open>int\<close>), \<open>JInf\<close> the two infinite floats by their sign. \<open>JNaN\<close> is a float that is
  not a number, given as the object it is: \<^verbatim>\<open>nan != nan\<close> holds for the float, but a list
  or a dict compares its items by identity first, so that \<^verbatim>\<open>[nan] == [nan]\<close> holds for
  one and the same object \<^verbatim>\<open>nan\<close> (\<^verbatim>\<open>json.loads\<close> yields one object for every \<^verbatim>\<open>NaN\<close> it
  reads) and fails for two. A dict with string keys is a finite map, so that equality
  of objects does not depend on the order of their items. (The other values that
  \<^verbatim>\<open>yaml.safe_load\<close> can yield, such as dates, are left out: they are compared by
  value, as the strings are.)
\<close>

datatype json =
    JNull
  | JNum rat
  | JInf bool
  | JNaN nat
  | JStr string
  | JArr "json list"
  | JObj "(string, json) fmap"

text \<open>
  The exceptions the client can meet, by their Python class. \<open>ValueError\<close> stands for
  a \<^verbatim>\<open>ValueError\<close> that is neither a \<^verbatim>\<open>JSONDecodeError\<close> nor a \<^verbatim>\<open>UnicodeDecodeError\<close>, and
  \<open>OSError\<close> for an \<^verbatim>\<open>OSError\<close> that is not a \<^verbatim>\<open>FileNotFoundError\<close> (\<^verbatim>\<open>PermissionError\<close>,
  \<^verbatim>\<open>IsADirectoryError\<close>, \<^verbatim>\<open>NotADirectoryError\<close>).
\<close>

datatype error =
    ValueError
  | KeyError
  | TypeError
  | IndexError
  | AttributeError
  | JSONDecodeError
  | UnicodeDecodeError
  | RecursionError
  | FileNotFoundError
  | OSError
  | RequestException
  | CallbackError

text \<open>\<^verbatim>\<open>bool(v)\<close>: what \<^verbatim>\<open>if v\<close>, \<^verbatim>\<open>not v\<close> and \<^verbatim>\<open>v or w\<close> test.\<close>

fun truthy :: "json \<Rightarrow> bool" where
  "truthy JNull = False"
| "truthy (JNum n) = (n \<noteq> 0)"
| "truthy (JInf b) = True"
| "truthy (JNaN i) = True"
| "truthy (JStr s) = (s \<noteq> [])"
| "truthy (JArr xs) = (xs \<noteq> [])"
| "truthy (JObj m) = (fmdom m \<noteq> {||})"

text \<open>
  \<^verbatim>\<open>v != w\<close>. Two values are equal in Python when they are the same value of the
  model, NaN objects included, and are not a NaN themselves: a NaN differs from
  itself, while a list or a dict that holds one equals itself.
\<close>

fun is_nan :: "json \<Rightarrow> bool" where
  "is_nan (JNaN i) = True"
| "is_nan _ = False"

definition py_ne :: "json \<Rightarrow> json \<Rightarrow> bool" where
  "py_ne v w = (\<not> (v = w \<and> \<not> is_nan v))"

text \<open>\<^verbatim>\<open>v.get(key, default)\<close>: only a dict has the method.\<close>

fun py_get :: "json \<Rightarrow> string \<Rightarrow> json \<Rightarrow> error + json" where
  "py_get (JObj m) key default_val =
     Inr (case fmlookup m key of None \<Rightarrow> default_val | Some v \<Rightarrow> v)"
| "py_get _ key default_val = Inl AttributeError"

text \<open>\<^verbatim>\<open>v[key]\<close> with a string key.\<close>

fun py_getitem :: "json \<Rightarrow> string \<Rightarrow> error + json" where
  "py_getitem (JObj m) key =
     (case fmlookup m key of None \<Rightarrow> Inl KeyError | Some v \<Rightarrow> Inr v)"
| "py_getitem _ key = Inl TypeError"

text \<open>\<^verbatim>\<open>v[0]\<close>: the keys of a dict are strings, so the integer 0 is never one.\<close>

fun py_first :: "json \<Rightarrow> error + json" where
  "py_first (JArr []) = Inl IndexError"
| "py_first (JArr (x # xs)) = Inr x"
| "py_first (JStr []) = Inl IndexError"
| "py_first (JStr (c # cs)) = Inr (JStr [c])"
| "py_first (JObj m) = Inl KeyError"
| "py_first _ = Inl TypeError"

section \<open>The world outside the client\<close>

text \<open>
  \<^verbatim>\<open>HttpClient.get\<close> either raises (connection error, timeout) or returns a response
  with a status code and a body; the body is given as the result of
  \<^verbatim>\<open>response.json()\<close>, \<open>None\<close> when that call raises.
\<close>

datatype http_result =
    HttpRaises
  | HttpResponse int "json option"

text \<open>
  The transport answers by full URL. \<open>now\<close> is \<^verbatim>\<open>str(time.time())\<close>. \<open>json_dumps\<close> and
  \<open>json_loads\<close> are the standard library's \<^verbatim>\<open>json.dumps\<close> and \<^verbatim>\<open>json.loads\<close>: each
  returns, or raises. \<^verbatim>\<open>json.loads\<close> raises \<^verbatim>\<open>JSONDecodeError\<close> on a text that is not
  JSON, and other exceptions too (\<^verbatim>\<open>ValueError\<close> on an integer of more than 4300
  digits, \<^verbatim>\<open>RecursionError\<close> on deep nesting). \<open>path_error\<close> is the exception, if any,
  that \<^verbatim>\<open>open\<close> raises for a path because of the way the path is written, whatever
  the directories hold: \<^verbatim>\<open>ValueError\<close> for an embedded NUL character, an \<^verbatim>\<open>OSError\<close>
  for a name longer than the file system takes.
\<close>

record env =
  http_get :: "string \<Rightarrow> http_result"
  now :: string
  json_dumps :: "json \<Rightarrow> error + string"
  json_loads :: "string \<Rightarrow> error + json"
  path_error :: "string \<Rightarrow> error option"

text \<open>
  The file system as the client reaches it: an entry is named by the path that is
  joined to \<^verbatim>\<open>_cache_file_dir_path\<close>, so a name without a slash is an entry of the cache
  directory, a name with slashes an entry of a directory below it (or, when it starts
  with a slash, an absolute path, as \<^verbatim>\<open>os.path.join\<close> then drops the cache directory).
  An entry is a text file, a file whose bytes are not text in the encoding it is
  read with, a file whose \<^verbatim>\<open>open\<close> raises \<^verbatim>\<open>PermissionError\<close>, or a directory. Paths are
  compared as written, and a directory is listed together with the directories
  above it. A directory that is listed can be searched, and files can be created in
  it; the device has room for what is written.
\<close>

datatype node =
    Text string
  | Undecodable
  | NoAccess
  | Directory

section \<open>The data model\<close>

text \<open>
  The classes of the source. The fields \<^verbatim>\<open>value\<close> and \<^verbatim>\<open>update\<close> of \<^verbatim>\<open>ApolloValue\<close> are
  \<open>av_value\<close> and \<open>av_update\<close> here. The \<^verbatim>\<open>config\<close> of a server response is a dict: the
  list of its items, in the order \<^verbatim>\<open>items()\<close> yields them, with distinct keys.
\<close>

record ApolloValue =
  av_value :: json
  av_update :: bool

type_synonym ApolloConfig = "string \<rightharpoonup> ApolloValue"

record ApolloServerResponse =
  release_key :: string
  config :: "(string \<times> json) list"

text \<open>
  A subscriber's \<open>action\<close> is a callable: given the configuration (or \<^verbatim>\<open>None\<close>) it
  returns, or raises an exception. Its \<open>namespace\<close> may be \<^verbatim>\<open>None\<close>, the case that
  \<^verbatim>\<open>notify\<close> tests for.
\<close>

record ApolloSubscriber =
  action :: "ApolloConfig option \<Rightarrow> error option"
  priority :: int
  namespace :: "string option"

text \<open>
  The attributes of \<^verbatim>\<open>ApolloClient\<close>: \<open>client_namespace\<close> is \<^verbatim>\<open>self.namespace\<close>,
  \<open>subscribers\<close>, \<open>cache\<close>, \<open>hash\<close> and \<open>config_server_url\<close> are the attributes of
  these names with a leading underscore (\<open>JNull\<close> is the \<^verbatim>\<open>None\<close> that
  \<^verbatim>\<open>_config_server_url\<close> starts with). \<open>http_client_meta_url\<close> is
  \<^verbatim>\<open>self.http_client.meta_url\<close>, set once when the client is built and not touched by
  \<^verbatim>\<open>update_config_server\<close>; \<open>disk\<close> is the file system; \<open>delivered\<close> records each call
  of a subscriber's action with its argument, in the order the calls are made.
\<close>

record client =
  meta_url :: string
  app_id :: string
  cluster :: string
  client_namespace :: string
  subscribers :: "ApolloSubscriber list"
  configs :: "string \<rightharpoonup> ApolloConfig"
  cache :: "string \<rightharpoonup> json"
  hash :: "string \<rightharpoonup> json"
  config_server_url :: json
  http_client_meta_url :: string
  disk :: "(string \<times> node) list"
  delivered :: "(ApolloSubscriber \<times> ApolloConfig option) list"

section \<open>Server directory\<close>

text \<open>\<^verbatim>\<open>get_service_conf\<close>: every failure after the request itself is a \<^verbatim>\<open>ValueError\<close>.\<close>

definition get_service_conf :: "env \<Rightarrow> client \<Rightarrow> error + json" where
  "get_service_conf e st =
     (case http_get e (meta_url st @ ''services/config?appId='' @ app_id st) of
        HttpRaises \<Rightarrow> Inl RequestException
      | HttpResponse status_code body \<Rightarrow>
          if status_code \<noteq> 200 then Inl ValueError
          else (case body of
                  None \<Rightarrow> Inl ValueError
                | Some service_conf \<Rightarrow>
                    if \<not> truthy service_conf then Inl ValueError
                    else Inr service_conf))"

text \<open>
  The comprehension
  \<^verbatim>\<open>[service for service in service_conf if service["homepageUrl"] != exclude]\<close>
  over a list.
\<close>

fun exclude_services :: "json \<Rightarrow> json list \<Rightarrow> error + json list" where
  "exclude_services exclude [] = Inr []"
| "exclude_services exclude (service # rest) =
     (case py_getitem service ''homepageUrl'' of
        Inl err \<Rightarrow> Inl err
      | Inr url \<Rightarrow>
          (case exclude_services exclude rest of
             Inl err \<Rightarrow> Inl err
           | Inr kept \<Rightarrow> Inr (if py_ne url exclude then service # kept else kept)))"

text \<open>
  The same comprehension over any value: a string yields its characters and a dict
  its keys, which are strings, so the subscript raises at the first of them; a
  number or \<^verbatim>\<open>None\<close> is not iterable.
\<close>

fun exclude_filter :: "json \<Rightarrow> json \<Rightarrow> error + json" where
  "exclude_filter exclude (JArr services) =
     (case exclude_services exclude services of
        Inl err \<Rightarrow> Inl err
      | Inr kept \<Rightarrow> Inr (JArr kept))"
| "exclude_filter exclude (JStr s) = (if s = [] then Inr (JArr []) else Inl TypeError)"
| "exclude_filter exclude (JObj m) =
     (if fmdom m = {||} then Inr (JArr []) else Inl TypeError)"
| "exclude_filter exclude _ = Inl TypeError"

definition update_config_server :: "env \<Rightarrow> json \<Rightarrow> client \<Rightarrow> (error + json) \<times> client" where
  "update_config_server e exclude st =
     (case get_service_conf e st of
        Inl err \<Rightarrow> (Inl err, st)
      | Inr service_conf \<Rightarrow>
          (case (if truthy exclude then exclude_filter exclude service_conf
                 else Inr service_conf) of
             Inl err \<Rightarrow> (Inl err, st)
           | Inr service_conf' \<Rightarrow>
               (case py_first service_conf' of
                  Inl err \<Rightarrow> (Inl err, st)
                | Inr service \<Rightarrow>
                    (case py_getitem service ''homepageUrl'' of
                       Inl err \<Rightarrow> (Inl err, st)
                     | Inr url \<Rightarrow> (Inr url, st\<lparr>config_server_url := url\<rparr>)))))"

section \<open>Local snapshot store\<close>

text \<open>
  The directory an entry lies in, as its path is written: what stands before the
  last slash (nothing for a name without a slash, which is an entry of the cache
  directory, and for an entry of the root). Then the exception, if any, that opening
  a path meets at that directory: the cache directory and the root exist, another
  directory may be missing (\<^verbatim>\<open>FileNotFoundError\<close>) or be a file (\<^verbatim>\<open>NotADirectoryError\<close>).
\<close>

definition parent_directory :: "string \<Rightarrow> string" where
  "parent_directory p =
     (if CHR ''/'' \<in> set p then rev (tl (dropWhile (\<lambda>c. c \<noteq> CHR ''/'') (rev p))) else [])"

definition directory_error :: "(string \<times> node) list \<Rightarrow> string \<Rightarrow> error option" where
  "directory_error d p =
     (if parent_directory p = [] then None
      else (case map_of d (parent_directory p) of
              None \<Rightarrow> Some FileNotFoundError
            | Some Directory \<Rightarrow> None
            | Some other \<Rightarrow> Some OSError))"

text \<open>What \<^verbatim>\<open>open\<close> raises before it comes to the entry itself.\<close>

definition open_error :: "env \<Rightarrow> (string \<times> node) list \<Rightarrow> string \<Rightarrow> error option" where
  "open_error e d p =
     (case path_error e p of
        Some err \<Rightarrow> Some err
      | None \<Rightarrow> directory_error d p)"

text \<open>
  \<^verbatim>\<open>open(path, "r")\<close> followed by reading the file as text, and \<^verbatim>\<open>open(path, "w")\<close>, which
  leaves the file empty until something is written.
\<close>

definition open_read :: "env \<Rightarrow> (string \<times> node) list \<Rightarrow> string \<Rightarrow> error + string" where
  "open_read e d p =
     (case open_error e d p of
        Some err \<Rightarrow> Inl err
      | None \<Rightarrow>
          (case map_of d p of
             None \<Rightarrow> Inl FileNotFoundError
           | Some (Text s) \<Rightarrow> Inr s
           | Some Undecodable \<Rightarrow> Inl UnicodeDecodeError
           | Some NoAccess \<Rightarrow> Inl OSError
           | Some Directory \<Rightarrow> Inl OSError))"

definition open_write ::
  "env \<Rightarrow> (string \<times> node) list \<Rightarrow> string \<Rightarrow> error + (string \<times> node) list" where
  "open_write e d p =
     (case open_error e d p of
        Some err \<Rightarrow> Inl err
      | None \<Rightarrow>
          (case map_of d p of
             Some NoAccess \<Rightarrow> Inl OSError
           | Some Directory \<Rightarrow> Inl OSError
           | _ \<Rightarrow> Inr (AList.update p (Text []) d)))"

text \<open>The file of a namespace: \<^verbatim>\<open>f"{self.app_id}_configuration_{namespace}.txt"\<close>.\<close>

definition cache_file_name :: "string \<Rightarrow> string \<Rightarrow> string" where
  "cache_file_name app ns = app @ ''_configuration_'' @ ns @ ''.txt''"

text \<open>\<^verbatim>\<open>self._hash.get(namespace)\<close>: \<^verbatim>\<open>None\<close> when nothing was written yet.\<close>

definition hash_get :: "client \<Rightarrow> string \<Rightarrow> json" where
  "hash_get st ns = (case hash st ns of None \<Rightarrow> JNull | Some k \<Rightarrow> k)"

text \<open>
  \<^verbatim>\<open>update_local_file_cache\<close>: the file is opened, and so emptied, before
  \<^verbatim>\<open>json.dumps\<close> runs; when that raises, the file stays empty and the release key is
  not recorded.
\<close>

definition update_local_file_cache ::
  "env \<Rightarrow> json \<Rightarrow> json \<Rightarrow> string \<Rightarrow> client \<Rightarrow> (error + unit) \<times> client" where
  "update_local_file_cache e rkey data ns st =
     (if py_ne (hash_get st ns) rkey then
        (case open_write e (disk st) (cache_file_name (app_id st) ns) of
           Inl err \<Rightarrow> (Inl err, st)
         | Inr d \<Rightarrow>
             (case json_dumps e data of
                Inl err \<Rightarrow> (Inl err, st\<lparr>disk := d\<rparr>)
              | Inr new_string \<Rightarrow>
                  (Inr (),
                   st\<lparr>disk := AList.update (cache_file_name (app_id st) ns) (Text new_string) d,
                      hash := (hash st)(ns \<mapsto> rkey)\<rparr>)))
      else (Inr (), st))"

text \<open>
  \<^verbatim>\<open>get_local_file_cache\<close> catches \<^verbatim>\<open>FileNotFoundError\<close> and \<^verbatim>\<open>JSONDecodeError\<close> only; any
  other exception of \<^verbatim>\<open>open\<close> or \<^verbatim>\<open>json.load\<close> leaves it.
\<close>

definition get_local_file_cache :: "env \<Rightarrow> string \<Rightarrow> client \<Rightarrow> error + json" where
  "get_local_file_cache e ns st =
     (case open_read e (disk st) (cache_file_name (app_id st) ns) of
        Inl err \<Rightarrow> if err = FileNotFoundError then Inr (JObj fmempty) else Inl err
      | Inr s \<Rightarrow>
          (case json_loads e s of
             Inl err \<Rightarrow> if err = JSONDecodeError then Inr (JObj fmempty) else Inl err
           | Inr data \<Rightarrow> Inr data))"

definition update_cache :: "string \<Rightarrow> json \<Rightarrow> client \<Rightarrow> client" where
  "update_cache ns data st = st\<lparr>cache := (cache st)(ns \<mapsto> data)\<rparr>"

section \<open>Fetch or fall back\<close>

text \<open>The body of the \<^verbatim>\<open>try\<close> of \<^verbatim>\<open>fetch_config_by_namespace\<close>.\<close>

definition fetch_remote :: "env \<Rightarrow> string \<Rightarrow> string \<Rightarrow> client \<Rightarrow> (error + unit) \<times> client" where
  "fetch_remote e url ns st =
     (case http_get e (http_client_meta_url st @ url) of
        HttpRaises \<Rightarrow> (Inl RequestException, st)
      | HttpResponse status_code body \<Rightarrow>
          if status_code = 200 then
            (case body of
               None \<Rightarrow> (Inl JSONDecodeError, st)
             | Some data \<Rightarrow>
                 (case py_get data ''configurations'' (JObj fmempty) of
                    Inl err \<Rightarrow> (Inl err, st)
                  | Inr configurations \<Rightarrow>
                      (case py_get data ''releaseKey'' (JStr (now e)) of
                         Inl err \<Rightarrow> (Inl err, st)
                       | Inr rkey \<Rightarrow>
                           update_local_file_cache e rkey configurations ns
                             (update_cache ns configurations st))))
          else
            (case get_local_file_cache e ns st of
               Inl err \<Rightarrow> (Inl err, st)
             | Inr data \<Rightarrow> (Inr (), update_cache ns data st)))"

text \<open>
  \<^verbatim>\<open>fetch_config_by_namespace\<close>: the handler of \<^verbatim>\<open>except Exception\<close> reads the snapshot,
  installs it, and then calls \<^verbatim>\<open>update_config_server\<close>. Nothing catches what the
  handler itself raises.
\<close>

definition fetch_config_by_namespace :: "env \<Rightarrow> string \<Rightarrow> client \<Rightarrow> (error + unit) \<times> client" where
  "fetch_config_by_namespace e ns st =
     (let url = ''configs/'' @ app_id st @ ''/'' @ cluster st @ ''/'' @ ns in
      case fetch_remote e url ns st of
        (Inr u, st1) \<Rightarrow> (Inr (), st1)
      | (Inl err, st1) \<Rightarrow>
          (case get_local_file_cache e ns st1 of
             Inl err' \<Rightarrow> (Inl err', st1)
           | Inr data \<Rightarrow>
               (let st2 = update_cache ns data st1 in
                case update_config_server e (config_server_url st2) st2 of
                  (Inl err', st3) \<Rightarrow> (Inl err', st3)
                | (Inr url', st3) \<Rightarrow> (Inr (), st3))))"

text \<open>\<^verbatim>\<open>os.path.splitext\<close> of a file name, and \<^verbatim>\<open>s.split("_")[-1]\<close>.\<close>

definition splitext :: "string \<Rightarrow> string \<times> string" where
  "splitext p =
     (let ext = rev (takeWhile (\<lambda>c. c \<noteq> CHR ''.'') (rev p));
          root = take (length p - length ext - 1) p
      in if length ext = length p \<or> list_all (\<lambda>c. c = CHR ''.'') root then (p, [])
         else (root, CHR ''.'' # ext))"

definition last_field :: "string \<Rightarrow> string" where
  "last_field s = rev (takeWhile (\<lambda>c. c \<noteq> CHR ''_'') (rev s))"

text \<open>\<^verbatim>\<open>os.listdir\<close> of the cache directory, and \<^verbatim>\<open>os.path.isfile\<close> of one of its entries.\<close>

definition listdir :: "(string \<times> node) list \<Rightarrow> string list" where
  "listdir d = remdups (filter (\<lambda>p. CHR ''/'' \<notin> set p) (map fst d))"

definition isfile :: "env \<Rightarrow> (string \<times> node) list \<Rightarrow> string \<Rightarrow> bool" where
  "isfile e d file_name =
     (case open_error e d file_name of
        Some err \<Rightarrow> False
      | None \<Rightarrow>
          (case map_of d file_name of
             None \<Rightarrow> False
           | Some Directory \<Rightarrow> False
           | Some other \<Rightarrow> True))"

text \<open>The loop of \<^verbatim>\<open>load_local_cache_file\<close> over the listing.\<close>

fun load_files :: "env \<Rightarrow> string list \<Rightarrow> client \<Rightarrow> (error + unit) \<times> client" where
  "load_files e [] st = (Inr (), st)"
| "load_files e (file_name # rest) st =
     (if isfile e (disk st) file_name then
        (let (file_simple_name, file_ext_name) = splitext file_name in
         if file_ext_name = ''.swp'' then load_files e rest st
         else if \<not> prefix (app_id st @ ''_configuration_'') file_simple_name
           then load_files e rest st
         else
           (case open_read e (disk st) file_name of
              Inl err \<Rightarrow> (Inl err, st)
            | Inr s \<Rightarrow>
                (case json_loads e s of
                   Inl err \<Rightarrow> (Inl err, st)
                 | Inr data \<Rightarrow>
                     load_files e rest (update_cache (last_field file_simple_name) data st))))
      else load_files e rest st)"

text \<open>
  \<^verbatim>\<open>load_local_cache_file\<close> wraps the loop in \<^verbatim>\<open>try\<close> with \<^verbatim>\<open>except Exception\<close> and answers
  with a flag.
\<close>

definition load_local_cache_file :: "env \<Rightarrow> client \<Rightarrow> (error + bool) \<times> client" where
  "load_local_cache_file e st =
     (case load_files e (listdir (disk st)) st of
        (Inr u, st1) \<Rightarrow> (Inr True, st1)
      | (Inl err, st1) \<Rightarrow> (Inr False, st1))"

text \<open>
  \<^verbatim>\<open>fetch_configuration\<close>: the handler of \<^verbatim>\<open>except Exception\<close> calls
  \<^verbatim>\<open>load_local_cache_file\<close>, and would pass on what that call raised.
\<close>

definition fetch_configuration :: "env \<Rightarrow> client \<Rightarrow> (error + unit) \<times> client" where
  "fetch_configuration e st =
     (case fetch_config_by_namespace e (client_namespace st) st of
        (Inr u, st1) \<Rightarrow> (Inr (), st1)
      | (Inl err, st1) \<Rightarrow>
          (case load_local_cache_file e st1 of
             (Inl err', st2) \<Rightarrow> (Inl err', st2)
           | (Inr loaded, st2) \<Rightarrow> (Inr (), st2)))"

section \<open>Reading values\<close>

definition get_value :: "string \<Rightarrow> json \<Rightarrow> string \<Rightarrow> client \<Rightarrow> json" where
  "get_value key default_val ns st =
     (case cache st ns of
        Some c \<Rightarrow>
          (case py_get c key default_val of
             Inr v \<Rightarrow> v
           | Inl err \<Rightarrow> default_val)
      | None \<Rightarrow> default_val)"

text \<open>\<^verbatim>\<open>json.loads(val)\<close>: a \<^verbatim>\<open>TypeError\<close> unless \<open>val\<close> is a string.\<close>

fun py_json_loads :: "env \<Rightarrow> json \<Rightarrow> error + json" where
  "py_json_loads e (JStr s) = json_loads e s"
| "py_json_loads e _ = Inl TypeError"

text \<open>\<^verbatim>\<open>get_json_value\<close> catches \<^verbatim>\<open>JSONDecodeError\<close> and \<^verbatim>\<open>TypeError\<close> only.\<close>

definition get_json_value :: "env \<Rightarrow> string \<Rightarrow> json \<Rightarrow> string \<Rightarrow> client \<Rightarrow> error + json" where
  "get_json_value e key default_val ns st =
     (let val = get_value key JNull ns st in
      case py_json_loads e val of
        Inr v \<Rightarrow> Inr v
      | Inl err \<Rightarrow>
          if err = JSONDecodeError \<or> err = TypeError
          then Inr (if truthy default_val then default_val else JObj fmempty)
          else Inl err)"

section \<open>Subscribers\<close>

fun check_namespaces :: "string \<Rightarrow> ApolloSubscriber list \<Rightarrow> error + unit" where
  "check_namespaces ns [] = Inr ()"
| "check_namespaces ns (subscriber # rest) =
     (if namespace subscriber \<noteq> Some ns then Inl ValueError
      else check_namespaces ns rest)"

definition check_subscribers :: "client \<Rightarrow> error + unit" where
  "check_subscribers st = check_namespaces (client_namespace st) (subscribers st)"

definition add_subscriber :: "ApolloSubscriber \<Rightarrow> client \<Rightarrow> (error + unit) \<times> client" where
  "add_subscriber subscriber st =
     (let st1 = st\<lparr>subscribers := subscribers st @ [subscriber]\<rparr>
      in (check_subscribers st1, st1))"

text \<open>
  \<^verbatim>\<open>sorted(subs, key=lambda s: s.priority, reverse=True)\<close>: a stable sort by descending
  priority.
\<close>

definition sorted_by_priority :: "ApolloSubscriber list \<Rightarrow> ApolloSubscriber list" where
  "sorted_by_priority subs = sort_key (\<lambda>s. - priority s) subs"

text \<open>The loop of \<^verbatim>\<open>notify\<close>; an exception of an action, or a missing namespace in
  \<^verbatim>\<open>self.configs\<close>, ends it.\<close>

fun notify_all :: "ApolloSubscriber list \<Rightarrow> client \<Rightarrow> (error + unit) \<times> client" where
  "notify_all [] st = (Inr (), st)"
| "notify_all (subscriber # rest) st =
     (case namespace subscriber of
        None \<Rightarrow>
          (let st1 = st\<lparr>delivered := delivered st @ [(subscriber, None)]\<rparr> in
           case action subscriber None of
             Some err \<Rightarrow> (Inl err, st1)
           | None \<Rightarrow> notify_all rest st1)
      | Some ns \<Rightarrow>
          (case configs st ns of
             None \<Rightarrow> (Inl KeyError, st)
           | Some c \<Rightarrow>
               (let st1 = st\<lparr>delivered := delivered st @ [(subscriber, Some c)]\<rparr> in
                case action subscriber (Some c) of
                  Some err \<Rightarrow> (Inl err, st1)
                | None \<Rightarrow> notify_all rest st1)))"

definition notify :: "client \<Rightarrow> (error + unit) \<times> client" where
  "notify st =
     (let st1 = st\<lparr>subscribers := sorted_by_priority (subscribers st)\<rparr>
      in notify_all (subscribers st1) st1)"

text \<open>
  What \<^verbatim>\<open>notify\<close> does with one subscriber, read off the client: the argument its
  action is called with, whether the action is reached at all (the lookup
  \<^verbatim>\<open>self.configs[subscriber.namespace]\<close> does not raise), and whether the call is made
  and returns.
\<close>

definition argument :: "client \<Rightarrow> ApolloSubscriber \<Rightarrow> ApolloConfig option" where
  "argument st s = (case namespace s of None \<Rightarrow> None | Some ns \<Rightarrow> configs st ns)"

definition reached :: "client \<Rightarrow> ApolloSubscriber \<Rightarrow> bool" where
  "reached st s = (case namespace s of None \<Rightarrow> True | Some ns \<Rightarrow> configs st ns \<noteq> None)"

definition returns :: "client \<Rightarrow> ApolloSubscriber \<Rightarrow> bool" where
  "returns st s = (reached st s \<and> action s (argument st s) = None)"

section \<open>Cache update\<close>

text \<open>The loop of \<^verbatim>\<open>update\<close> over \<^verbatim>\<open>server_response.config.items()\<close>.\<close>

fun update_items :: "(string \<times> json) list \<Rightarrow> ApolloConfig \<Rightarrow> ApolloConfig" where
  "update_items [] c = c"
| "update_items ((key, value_in_server) # rest) c =
     (case c key of
        Some current_value \<Rightarrow>
          if py_ne (av_value current_value) value_in_server
          then update_items rest
                 (c(key \<mapsto> \<lparr>av_value = value_in_server, av_update = True\<rparr>))
          else update_items rest
                 (c(key \<mapsto> \<lparr>av_value = value_in_server, av_update = False\<rparr>))
      | None \<Rightarrow>
          update_items rest (c(key \<mapsto> \<lparr>av_value = value_in_server, av_update = True\<rparr>)))"

text \<open>\<^verbatim>\<open>self.configs[namespace]\<close> once \<^verbatim>\<open>update\<close> has made sure the namespace is there.\<close>

definition namespace_config :: "client \<Rightarrow> string \<Rightarrow> ApolloConfig" where
  "namespace_config st ns = (case configs st ns of None \<Rightarrow> Map.empty | Some c \<Rightarrow> c)"

definition update :: "ApolloServerResponse \<Rightarrow> string \<Rightarrow> client \<Rightarrow> (error + unit) \<times> client" where
  "update server_response ns st =
     notify (st\<lparr>configs := (configs st)
       (ns \<mapsto> update_items (config server_response) (namespace_config st ns))\<rparr>)"

section \<open>Sample clients and worlds\<close>

text \<open>
  A client built for the application \<^verbatim>\<open>app\<close> against the meta server
  \<^verbatim>\<open>http://meta/\<close>, whose directory named \<^verbatim>\<open>http://a/\<close> as the config server; nothing
  is cached, written or subscribed yet.
\<close>

definition client0 :: client where
  "client0 =
     \<lparr>meta_url = ''http://meta/'', app_id = ''app'', cluster = ''default'',
      client_namespace = ''application'', subscribers = [], configs = Map.empty,
      cache = Map.empty, hash = Map.empty, config_server_url = JStr ''http://a/'',
      http_client_meta_url = ''http://a/'', disk = [], delivered = []\<rparr>"

text \<open>
  What \<^verbatim>\<open>json.loads\<close> and \<^verbatim>\<open>json.dumps\<close> do on the few texts and values used below: an
  integer of more than 4300 digits makes \<^verbatim>\<open>json.loads\<close> raise \<^verbatim>\<open>ValueError\<close>.
\<close>

definition sample_loads :: "string \<Rightarrow> error + json" where
  \<open>sample_loads s =
     (if 4300 < length s \<and> list_all (\<lambda>c. c \<in> set ''0123456789'') s then Inl ValueError
      else if s = ''null'' then Inr JNull
      else if s = ''{"k": "v"}'' then Inr (JObj (fmap_of_list [(''k'', JStr ''v'')]))
      else if s = ''{}'' then Inr (JObj fmempty)
      else Inl JSONDecodeError)\<close>

definition sample_dumps :: "json \<Rightarrow> error + string" where
  \<open>sample_dumps v =
     (if v = JNull then Inr ''null''
      else if v = JObj (fmap_of_list [(''k'', JStr ''v'')]) then Inr ''{"k": "v"}''
      else Inr ''{}'')\<close>

text \<open>
  A world in which the directory request of \<open>client0\<close> is answered by \<open>dir_answer\<close>,
  its config request for the namespace \<^verbatim>\<open>application\<close> at \<^verbatim>\<open>http://a/\<close> by
  \<open>config_answer\<close>, and every other request fails to connect; \<^verbatim>\<open>open\<close> takes every path
  without a NUL character.
\<close>

definition world :: "http_result \<Rightarrow> http_result \<Rightarrow> env" where
  "world dir_answer config_answer =
     \<lparr>http_get = (\<lambda>url.
        if url = ''http://meta/services/config?appId=app'' then dir_answer
        else if url = ''http://a/configs/app/default/application'' then config_answer
        else HttpRaises),
      now = ''1750000000.0'', json_dumps = sample_dumps, json_loads = sample_loads,
      path_error = (\<lambda>p. if CHR 0x00 \<in> set p then Some ValueError else None)\<rparr>"

text \<open>An endpoint descriptor of the directory.\<close>

definition service :: "string \<Rightarrow> json" where
  "service url =
     JObj (fmap_of_list [(''appName'', JStr ''apollo-configservice''), (''homepageUrl'', JStr url)])"

text \<open>A subscriber whose action returns normally and one whose action raises, a server
  response, a client with the given subscribers, and a client with cached values.\<close>

definition subscriber_of :: "int \<Rightarrow> string option \<Rightarrow> ApolloSubscriber" where
  "subscriber_of p ns = \<lparr>action = (\<lambda>c. None), priority = p, namespace = ns\<rparr>"

definition raising_subscriber :: "int \<Rightarrow> string option \<Rightarrow> ApolloSubscriber" where
  "raising_subscriber p ns = \<lparr>action = (\<lambda>c. Some CallbackError), priority = p, namespace = ns\<rparr>"

definition response_of :: "(string \<times> json) list \<Rightarrow> ApolloServerResponse" where
  "response_of items = \<lparr>release_key = ''r1'', config = items\<rparr>"

definition subscribed :: "ApolloSubscriber list \<Rightarrow> client" where
  "subscribed subs =
     client0\<lparr>subscribers := subs, configs := [''application'' \<mapsto> Map.empty]\<rparr>"

definition cached :: "(string \<times> json) list \<Rightarrow> client" where
  "cached items = client0\<lparr>cache := [''application'' \<mapsto> JObj (fmap_of_list items)]\<rparr>"

section \<open>Server directory: selection and failure\<close>

lemma exclude_services_all:
  "map (\<lambda>s. py_getitem s ''homepageUrl'') services = map Inr urls \<Longrightarrow>
   \<exists>kept. exclude_services exclude services = Inr kept \<and>
     map (\<lambda>s. py_getitem s ''homepageUrl'') kept = map Inr (filter (\<lambda>u. py_ne u exclude) urls)"
proof (induction services arbitrary: urls)
  case Nil
  then show ?case by simp
next
  case (Cons s services)
  then obtain u us where urls: "urls = u # us" by (cases urls) auto
  with Cons.prems have hd: "py_getitem s ''homepageUrl'' = Inr u"
    and tl: "map (\<lambda>s. py_getitem s ''homepageUrl'') services = map Inr us" by auto
  from Cons.IH[OF tl] obtain kept where
    k: "exclude_services exclude services = Inr kept"
    "map (\<lambda>s. py_getitem s ''homepageUrl'') kept = map Inr (filter (\<lambda>u. py_ne u exclude) us)"
    by blast
  show ?case using hd k urls by simp
qed

lemma first_kept:
  "map (\<lambda>s. py_getitem s ''homepageUrl'') kept = map Inr (u # us) \<Longrightarrow>
   \<exists>s rest. kept = s # rest \<and> py_getitem s ''homepageUrl'' = Inr u"
  by (cases kept) auto

lemma get_service_conf_list:
  "http_get e (meta_url st @ ''services/config?appId='' @ app_id st) =
     HttpResponse 200 (Some (JArr services)) \<Longrightarrow> services \<noteq> [] \<Longrightarrow>
   get_service_conf e st = Inr (JArr services)"
  by (simp add: get_service_conf_def)

text \<open>
  C8, as the code has it. \<^verbatim>\<open>update_config_server\<close> raises \<^verbatim>\<open>ValueError\<close>, leaving the
  active endpoint as it was, when the directory answers with a status other than
  200, with a body that is not JSON, or with the empty list. When it answers with
  a list of descriptors that all carry \<^verbatim>\<open>homepageUrl\<close>, and some descriptor remains
  once those equal to a non-empty \<open>exclude\<close> are removed, the call returns the URL
  of the first that remains and stores it as the active endpoint. A non-empty
  object is not a list of descriptors, and the call then raises \<^verbatim>\<open>KeyError\<close> (no
  \<open>exclude\<close>) or \<^verbatim>\<open>TypeError\<close> (with one), not \<^verbatim>\<open>ValueError\<close>.
\<close>

theorem update_config_server_selects_first:
  "(http_get e (meta_url st @ ''services/config?appId='' @ app_id st) = HttpResponse code body \<and>
      code \<noteq> 200 \<longrightarrow>
      update_config_server e exclude st = (Inl ValueError, st)) \<and>
   (http_get e (meta_url st @ ''services/config?appId='' @ app_id st) = HttpResponse 200 None \<longrightarrow>
      update_config_server e exclude st = (Inl ValueError, st)) \<and>
   (http_get e (meta_url st @ ''services/config?appId='' @ app_id st) =
        HttpResponse 200 (Some (JArr [])) \<longrightarrow>
      update_config_server e exclude st = (Inl ValueError, st)) \<and>
   (http_get e (meta_url st @ ''services/config?appId='' @ app_id st) =
        HttpResponse 200 (Some (JArr services)) \<and>
      map (\<lambda>s. py_getitem s ''homepageUrl'') services = map Inr urls \<and>
      (if truthy exclude then filter (\<lambda>u. py_ne u exclude) urls else urls) = u # us \<longrightarrow>
      update_config_server e exclude st = (Inr u, st\<lparr>config_server_url := u\<rparr>)) \<and>
   (http_get e (meta_url st @ ''services/config?appId='' @ app_id st) =
        HttpResponse 200 (Some (JObj m)) \<and> fmdom m \<noteq> {||} \<longrightarrow>
      update_config_server e exclude st =
        (Inl (if truthy exclude then TypeError else KeyError), st))"
proof (intro conjI impI)
  assume "http_get e (meta_url st @ ''services/config?appId='' @ app_id st) =
      HttpResponse code body \<and> code \<noteq> 200"
  then show "update_config_server e exclude st = (Inl ValueError, st)"
    by (simp add: update_config_server_def get_service_conf_def)
next
  assume "http_get e (meta_url st @ ''services/config?appId='' @ app_id st) = HttpResponse 200 None"
  then show "update_config_server e exclude st = (Inl ValueError, st)"
    by (simp add: update_config_server_def get_service_conf_def)
next
  assume "http_get e (meta_url st @ ''services/config?appId='' @ app_id st) =
      HttpResponse 200 (Some (JArr []))"
  then show "update_config_server e exclude st = (Inl ValueError, st)"
    by (simp add: update_config_server_def get_service_conf_def)
next
  assume a: "http_get e (meta_url st @ ''services/config?appId='' @ app_id st) =
        HttpResponse 200 (Some (JArr services)) \<and>
      map (\<lambda>s. py_getitem s ''homepageUrl'') services = map Inr urls \<and>
      (if truthy exclude then filter (\<lambda>u. py_ne u exclude) urls else urls) = u # us"
  then have "services \<noteq> []" by (auto split: if_splits)
  with a have conf: "get_service_conf e st = Inr (JArr services)"
    by (simp add: get_service_conf_list)
  show "update_config_server e exclude st = (Inr u, st\<lparr>config_server_url := u\<rparr>)"
  proof (cases "truthy exclude")
    case True
    from a exclude_services_all[of services urls exclude] obtain kept where
      k: "exclude_services exclude services = Inr kept"
         "map (\<lambda>s. py_getitem s ''homepageUrl'') kept =
            map Inr (filter (\<lambda>u. py_ne u exclude) urls)"
      by blast
    with a True have "map (\<lambda>s. py_getitem s ''homepageUrl'') kept = map Inr (u # us)"
      by simp
    from first_kept[OF this] obtain s rest where
      "kept = s # rest" "py_getitem s ''homepageUrl'' = Inr u" by blast
    with conf True k(1) show ?thesis by (simp add: update_config_server_def)
  next
    case False
    with a have "urls = u # us" by simp
    with a obtain s rest where "services = s # rest" "py_getitem s ''homepageUrl'' = Inr u"
      by (cases services) auto
    with conf False show ?thesis by (simp add: update_config_server_def)
  qed
next
  assume "http_get e (meta_url st @ ''services/config?appId='' @ app_id st) =
      HttpResponse 200 (Some (JObj m)) \<and> fmdom m \<noteq> {||}"
  then show "update_config_server e exclude st =
      (Inl (if truthy exclude then TypeError else KeyError), st)"
    by (simp add: update_config_server_def get_service_conf_def)
qed

theorem update_config_server_selects_first_witness:
  "update_config_server (world (HttpResponse 404 None) HttpRaises) JNull client0 =
     (Inl ValueError, client0) \<and>
   update_config_server (world (HttpResponse 200 None) HttpRaises) JNull client0 =
     (Inl ValueError, client0) \<and>
   update_config_server (world (HttpResponse 200 (Some (JArr []))) HttpRaises) JNull client0 =
     (Inl ValueError, client0) \<and>
   update_config_server
       (world (HttpResponse 200 (Some (JArr [service ''http://a/'', service ''http://b/''])))
          HttpRaises)
       (JStr ''http://a/'') client0 =
     (Inr (JStr ''http://b/''), client0\<lparr>config_server_url := JStr ''http://b/''\<rparr>) \<and>
   update_config_server
       (world (HttpResponse 200 (Some (JObj (fmap_of_list [(''status'', JStr ''UP'')]))))
          HttpRaises)
       (JStr ''http://a/'') client0 =
     (Inl TypeError, client0)"
proof (intro conjI)
  show "update_config_server (world (HttpResponse 404 None) HttpRaises) JNull client0 =
     (Inl ValueError, client0)"
    using update_config_server_selects_first[where e="world (HttpResponse 404 None) HttpRaises"
        and st=client0 and code=404 and body=None and exclude=JNull]
    by (simp add: world_def client0_def)
  show "update_config_server (world (HttpResponse 200 None) HttpRaises) JNull client0 =
     (Inl ValueError, client0)"
    using update_config_server_selects_first[where e="world (HttpResponse 200 None) HttpRaises"
        and st=client0 and exclude=JNull]
    by (simp add: world_def client0_def)
  show "update_config_server (world (HttpResponse 200 (Some (JArr []))) HttpRaises) JNull client0 =
     (Inl ValueError, client0)"
    using update_config_server_selects_first[where
        e="world (HttpResponse 200 (Some (JArr []))) HttpRaises"
        and st=client0 and exclude=JNull]
    by (simp add: world_def client0_def)
  show "update_config_server
       (world (HttpResponse 200 (Some (JArr [service ''http://a/'', service ''http://b/''])))
          HttpRaises)
       (JStr ''http://a/'') client0 =
     (Inr (JStr ''http://b/''), client0\<lparr>config_server_url := JStr ''http://b/''\<rparr>)"
    using update_config_server_selects_first[where
        e="world (HttpResponse 200 (Some (JArr [service ''http://a/'', service ''http://b/''])))
             HttpRaises"
        and st=client0 and exclude="JStr ''http://a/''"
        and services="[service ''http://a/'', service ''http://b/'']"
        and urls="[JStr ''http://a/'', JStr ''http://b/'']"
        and u="JStr ''http://b/''" and us="[]"]
    by (simp add: world_def client0_def service_def py_ne_def)
  show "update_config_server
       (world (HttpResponse 200 (Some (JObj (fmap_of_list [(''status'', JStr ''UP'')]))))
          HttpRaises)
       (JStr ''http://a/'') client0 =
     (Inl TypeError, client0)"
    using update_config_server_selects_first[where
        e="world (HttpResponse 200 (Some (JObj (fmap_of_list [(''status'', JStr ''UP'')]))))
             HttpRaises"
        and st=client0 and exclude="JStr ''http://a/''"
        and m="fmap_of_list [(''status'', JStr ''UP'')]"]
    by (simp add: world_def client0_def)
qed

text \<open>
  The claim C8 as stated fails: a directory that answers 200 with a JSON object
  does not give a list of endpoint descriptors, and the call ends in the
  \<^verbatim>\<open>KeyError\<close> of \<^verbatim>\<open>service_conf[0]\<close>, not in the \<^verbatim>\<open>ValueError\<close> of the directory.
\<close>

theorem update_config_server_malformed_counterexample:
  "update_config_server
     (world (HttpResponse 200 (Some (JObj (fmap_of_list [(''status'', JStr ''UP'')]))))
        HttpRaises)
     JNull client0 = (Inl KeyError, client0)"
  by (simp add: update_config_server_def get_service_conf_def world_def client0_def)

text \<open>
  C9, as the code has it. With a non-empty \<open>exclude\<close> and a directory that answers
  with a non-empty list whose entries all have \<open>exclude\<close> as their \<^verbatim>\<open>homepageUrl\<close>,
  the emptiness check of \<^verbatim>\<open>get_service_conf\<close> passes. When \<open>exclude\<close> is not a NaN, as
  no string is, the filter leaves the empty list, and \<^verbatim>\<open>service_conf[0]\<close> raises
  \<^verbatim>\<open>IndexError\<close>; the active endpoint is unchanged. (An \<open>exclude\<close> that is a NaN differs
  from itself: the filter keeps every entry and the first is selected.)
\<close>

theorem update_config_server_all_excluded:
  assumes "http_get e (meta_url st @ ''services/config?appId='' @ app_id st) =
             HttpResponse 200 (Some (JArr services))"
    and "services \<noteq> []"
    and "map (\<lambda>s. py_getitem s ''homepageUrl'') services = map (\<lambda>s. Inr exclude) services"
    and "truthy exclude"
  shows "get_service_conf e st = Inr (JArr services) \<and>
         exclude_filter exclude (JArr services) =
           Inr (JArr (if is_nan exclude then services else [])) \<and>
         update_config_server e exclude st =
           (if is_nan exclude then (Inr exclude, st\<lparr>config_server_url := exclude\<rparr>)
            else (Inl IndexError, st))"
proof -
  from assms(1,2) have conf: "get_service_conf e st = Inr (JArr services)"
    by (rule get_service_conf_list)
  from assms(3)
  have "exclude_services exclude services = Inr (if is_nan exclude then services else [])"
    by (induction services) (auto simp: py_ne_def)
  then have kept: "exclude_filter exclude (JArr services) =
      Inr (JArr (if is_nan exclude then services else []))" by simp
  from assms(2) obtain service rest where services: "services = service # rest"
    by (cases services) auto
  with assms(3) have "py_getitem service ''homepageUrl'' = Inr exclude" by simp
  with conf kept assms(4) services show ?thesis
    by (simp add: update_config_server_def)
qed

theorem update_config_server_all_excluded_witness:
  "update_config_server
     (world (HttpResponse 200 (Some (JArr [service ''http://a/'']))) HttpRaises)
     (JStr ''http://a/'') client0 = (Inl IndexError, client0)"
  using update_config_server_all_excluded[of
      "world (HttpResponse 200 (Some (JArr [service ''http://a/'']))) HttpRaises" client0
      "[service ''http://a/'']" "JStr ''http://a/''"]
  by (simp add: world_def client0_def service_def py_ne_def)

text \<open>
  The claim C9 as stated fails for the empty string, which is not \<^verbatim>\<open>None\<close>:
  \<^verbatim>\<open>if exclude:\<close> skips the filter, and the only entry, whose URL is the excluded one,
  is selected.
\<close>

theorem update_config_server_empty_exclude_counterexample:
  "update_config_server (world (HttpResponse 200 (Some (JArr [service '''']))) HttpRaises)
     (JStr '''') client0 = (Inr (JStr ''''), client0\<lparr>config_server_url := JStr ''''\<rparr>)"
  by (simp add: update_config_server_def get_service_conf_def world_def client0_def service_def py_ne_def)

section \<open>Subscriber registration\<close>

lemma check_namespaces_append:
  "namespace s \<noteq> Some ns \<Longrightarrow> check_namespaces ns (subs @ [s]) = Inl ValueError"
  by (induction subs) auto

text \<open>
  C2, what the code does. \<^verbatim>\<open>add_subscriber\<close> appends first and checks afterwards: for a
  subscriber of another namespace it raises \<^verbatim>\<open>ValueError\<close>, and the subscriber is in
  the registry all the same.
\<close>

theorem add_subscriber_mismatch:
  assumes "namespace subscriber \<noteq> Some (client_namespace st)"
  shows "add_subscriber subscriber st =
           (Inl ValueError, st\<lparr>subscribers := subscribers st @ [subscriber]\<rparr>)"
  using assms
  by (simp add: add_subscriber_def check_subscribers_def Let_def check_namespaces_append)

theorem add_subscriber_mismatch_witness:
  "add_subscriber (subscriber_of 0 (Some ''other'')) client0 =
     (Inl ValueError, client0\<lparr>subscribers := [subscriber_of 0 (Some ''other'')]\<rparr>) \<and>
   fst (add_subscriber (subscriber_of 0 (Some ''application''))
          (snd (add_subscriber (subscriber_of 0 (Some ''other'')) client0))) = Inl ValueError"
  using add_subscriber_mismatch[of "subscriber_of 0 (Some ''other'')" client0]
  by (simp add: client0_def subscriber_of_def add_subscriber_def check_subscribers_def)

section \<open>Notification order\<close>

lemma notify_all_configs: "configs (snd (notify_all subs st)) = configs st"
  by (induction subs st rule: notify_all.induct) (auto split: option.splits simp: Let_def)

lemma notify_all_subscribers: "subscribers (snd (notify_all subs st)) = subscribers st"
  by (induction subs st rule: notify_all.induct) (auto split: option.splits simp: Let_def)

lemma notify_configs: "configs (snd (notify st)) = configs st"
  by (simp add: notify_def Let_def notify_all_configs)

lemma notify_subscribers: "subscribers (snd (notify st)) = sorted_by_priority (subscribers st)"
  by (simp add: notify_def Let_def notify_all_subscribers)

lemma sorted_by_priority_sorted:
  "sorted_wrt (\<lambda>a b. priority b \<le> priority a) (sorted_by_priority subs)"
proof -
  have "sorted (map (\<lambda>s. - priority s) (sort_key (\<lambda>s. - priority s) subs))"
    by (rule sorted_sort_key)
  then show ?thesis by (simp add: sorted_by_priority_def sorted_map)
qed

lemma sorted_by_priority_stable:
  "filter (\<lambda>s. priority s = p) (sorted_by_priority subs) = filter (\<lambda>s. priority s = p) subs"
  using sort_key_stable[of "\<lambda>s. - priority s" "- p" subs]
  by (simp add: sorted_by_priority_def)

lemma notify_all_delivered:
  "\<exists>calls. delivered (snd (notify_all subs st)) = delivered st @ calls \<and>
     map fst calls = take (length calls) subs \<and>
     (fst (notify_all subs st) = Inr () \<longrightarrow> length calls = length subs)"
proof (induction subs st rule: notify_all.induct)
  case (1 st)
  then show ?case by simp
next
  case (2 subscriber rest st)
  show ?case
  proof (cases "namespace subscriber")
    case None
    let ?st1 = "st\<lparr>delivered := delivered st @ [(subscriber, None)]\<rparr>"
    show ?thesis
    proof (cases "action subscriber None")
      case returns: None
      from "2.IH"(1)[OF None refl returns] obtain calls where
        c: "delivered (snd (notify_all rest ?st1)) = delivered ?st1 @ calls"
           "map fst calls = take (length calls) rest"
           "fst (notify_all rest ?st1) = Inr () \<longrightarrow> length calls = length rest"
        by blast
      show ?thesis
        by (rule exI[of _ "(subscriber, None) # calls"])
           (use None returns c in \<open>simp add: Let_def\<close>)
    next
      case (Some err)
      show ?thesis
        by (rule exI[of _ "[(subscriber, None)]"]) (use None Some in \<open>simp add: Let_def\<close>)
    qed
  next
    case (Some ns)
    show ?thesis
    proof (cases "configs st ns")
      case None
      show ?thesis by (rule exI[of _ "[]"]) (use Some None in simp)
    next
      case found: (Some c)
      let ?st1 = "st\<lparr>delivered := delivered st @ [(subscriber, Some c)]\<rparr>"
      show ?thesis
      proof (cases "action subscriber (Some c)")
        case returns: None
        from "2.IH"(2)[OF Some found refl returns] obtain calls where
          c: "delivered (snd (notify_all rest ?st1)) = delivered ?st1 @ calls"
             "map fst calls = take (length calls) rest"
             "fst (notify_all rest ?st1) = Inr () \<longrightarrow> length calls = length rest"
          by blast
        show ?thesis
          by (rule exI[of _ "(subscriber, Some c) # calls"])
             (use Some found returns c in \<open>simp add: Let_def\<close>)
      next
        case raises: (Some err)
        show ?thesis
          by (rule exI[of _ "[(subscriber, Some c)]"])
             (use Some found raises in \<open>simp add: Let_def\<close>)
      qed
    qed
  qed
qed

lemma notify_delivered:
  "\<exists>calls. delivered (snd (notify st)) = delivered st @ calls \<and>
     map fst calls = take (length calls) (sorted_by_priority (subscribers st)) \<and>
     (fst (notify st) = Inr () \<longrightarrow> map fst calls = sorted_by_priority (subscribers st))"
proof -
  let ?st1 = "st\<lparr>subscribers := sorted_by_priority (subscribers st)\<rparr>"
  from notify_all_delivered[of "sorted_by_priority (subscribers st)" ?st1]
  obtain calls where
    c: "delivered (snd (notify_all (sorted_by_priority (subscribers st)) ?st1)) =
          delivered ?st1 @ calls"
       "map fst calls = take (length calls) (sorted_by_priority (subscribers st))"
       "fst (notify_all (sorted_by_priority (subscribers st)) ?st1) = Inr () \<longrightarrow>
          length calls = length (sorted_by_priority (subscribers st))"
    by blast
  show ?thesis
    by (rule exI[of _ calls]) (use c in \<open>auto simp: notify_def Let_def\<close>)
qed

lemma argument_delivered [simp]: "argument (st\<lparr>delivered := d\<rparr>) = argument st"
  by (rule ext) (simp add: argument_def split: option.splits)

lemma reached_delivered [simp]: "reached (st\<lparr>delivered := d\<rparr>) = reached st"
  by (rule ext) (simp add: reached_def split: option.splits)

lemma returns_delivered [simp]: "returns (st\<lparr>delivered := d\<rparr>) = returns st"
  by (rule ext) (simp add: returns_def)

lemma notify_all_run:
  "delivered (snd (notify_all subs st)) =
     delivered st @
       map (\<lambda>s. (s, argument st s))
         (takeWhile (returns st) subs @
          (case dropWhile (returns st) subs of
             [] \<Rightarrow> []
           | s # rest \<Rightarrow> if reached st s then [s] else [])) \<and>
   (fst (notify_all subs st) = Inr ()) = list_all (returns st) subs"
proof (induction subs arbitrary: st)
  case Nil
  then show ?case by simp
next
  case (Cons subscriber rest)
  show ?case
  proof (cases "namespace subscriber")
    case None
    let ?st1 = "st\<lparr>delivered := delivered st @ [(subscriber, None)]\<rparr>"
    show ?thesis
    proof (cases "action subscriber None")
      case returned: None
      with None have "returns st subscriber"
        by (simp add: returns_def reached_def argument_def)
      moreover from None returned
      have "notify_all (subscriber # rest) st = notify_all rest ?st1" by (simp add: Let_def)
      moreover from None have "argument st subscriber = None" by (simp add: argument_def)
      ultimately show ?thesis
        using Cons.IH[of ?st1, unfolded reached_delivered returns_delivered argument_delivered]
        by simp
    next
      case (Some err)
      with None have "\<not> returns st subscriber" "reached st subscriber"
        "argument st subscriber = None"
        by (simp_all add: returns_def reached_def argument_def)
      with None Some show ?thesis by (simp add: Let_def)
    qed
  next
    case (Some ns)
    show ?thesis
    proof (cases "configs st ns")
      case None
      with Some have "\<not> returns st subscriber" "\<not> reached st subscriber"
        by (simp_all add: returns_def reached_def)
      with Some None show ?thesis by simp
    next
      case found: (Some c)
      let ?st1 = "st\<lparr>delivered := delivered st @ [(subscriber, Some c)]\<rparr>"
      from Some found have arg: "argument st subscriber = Some c" "reached st subscriber"
        by (simp_all add: argument_def reached_def)
      show ?thesis
      proof (cases "action subscriber (Some c)")
        case returned: None
        with arg have "returns st subscriber" by (simp add: returns_def)
        moreover from Some found returned
        have "notify_all (subscriber # rest) st = notify_all rest ?st1" by (simp add: Let_def)
        ultimately show ?thesis
          using Cons.IH[of ?st1, unfolded reached_delivered returns_delivered argument_delivered]
            arg
          by simp
      next
        case raised: (Some err)
        with arg have "\<not> returns st subscriber" by (simp add: returns_def)
        with Some found raised arg show ?thesis by (simp add: Let_def)
      qed
    qed
  qed
qed

lemma reached_sorted [simp]: "reached (st\<lparr>subscribers := subs\<rparr>) = reached st"
  by (rule ext) (simp add: reached_def split: option.splits)

lemma argument_sorted [simp]: "argument (st\<lparr>subscribers := subs\<rparr>) = argument st"
  by (rule ext) (simp add: argument_def split: option.splits)

lemma returns_sorted [simp]: "returns (st\<lparr>subscribers := subs\<rparr>) = returns st"
  by (rule ext) (simp add: returns_def)

lemma notify_run:
  "delivered (snd (notify st)) =
     delivered st @
       map (\<lambda>s. (s, argument st s))
         (takeWhile (returns st) (sorted_by_priority (subscribers st)) @
          (case dropWhile (returns st) (sorted_by_priority (subscribers st)) of
             [] \<Rightarrow> []
           | s # rest \<Rightarrow> if reached st s then [s] else [])) \<and>
   (fst (notify st) = Inr ()) = list_all (returns st) (subscribers st)"
proof -
  let ?st1 = "st\<lparr>subscribers := sorted_by_priority (subscribers st)\<rparr>"
  have "list_all (returns st) (sorted_by_priority (subscribers st)) =
      list_all (returns st) (subscribers st)"
    by (simp add: list_all_iff sorted_by_priority_def)
  with notify_all_run[of "sorted_by_priority (subscribers st)" ?st1,
      unfolded reached_sorted returns_sorted argument_sorted]
  show ?thesis
    by (simp add: notify_def Let_def)
qed

text \<open>
  C6, as the code has it. \<^verbatim>\<open>notify\<close> replaces the registry by its subscribers sorted
  by descending priority: the same subscribers, and those of one priority in the
  order they had. The actions are then called in the order of that list, up to and
  including the first one that raises, or up to the first subscriber whose
  namespace is not \<^verbatim>\<open>None\<close> and has no entry in \<^verbatim>\<open>self.configs\<close>; \<^verbatim>\<open>notify\<close> returns
  without an exception exactly when every subscriber's namespace is \<^verbatim>\<open>None\<close> or has an
  entry and every action returns, and then all actions have been called, in the
  sorted order.
\<close>

theorem notify_priority_order:
  "sorted_wrt (\<lambda>a b. priority b \<le> priority a) (subscribers (snd (notify st))) \<and>
   mset (subscribers (snd (notify st))) = mset (subscribers st) \<and>
   (\<forall>p. filter (\<lambda>s. priority s = p) (subscribers (snd (notify st))) =
          filter (\<lambda>s. priority s = p) (subscribers st)) \<and>
   delivered (snd (notify st)) =
     delivered st @
       map (\<lambda>s. (s, argument st s))
         (takeWhile (returns st) (subscribers (snd (notify st))) @
          (case dropWhile (returns st) (subscribers (snd (notify st))) of
             [] \<Rightarrow> []
           | s # rest \<Rightarrow> if reached st s then [s] else [])) \<and>
   (fst (notify st) = Inr ()) = list_all (returns st) (subscribers st) \<and>
   (list_all (returns st) (subscribers st) \<longrightarrow>
      delivered (snd (notify st)) =
        delivered st @ map (\<lambda>s. (s, argument st s)) (subscribers (snd (notify st))))"
proof -
  let ?sorted = "sorted_by_priority (subscribers st)"
  have subs: "subscribers (snd (notify st)) = ?sorted" by (rule notify_subscribers)
  have full: "delivered (snd (notify st)) = delivered st @ map (\<lambda>s. (s, argument st s)) ?sorted"
    if "list_all (returns st) (subscribers st)"
  proof -
    from that have "list_all (returns st) ?sorted"
      by (simp add: list_all_iff sorted_by_priority_def)
    then have "takeWhile (returns st) ?sorted = ?sorted" "dropWhile (returns st) ?sorted = []"
      by (simp_all add: list_all_iff)
    with notify_run[of st] show ?thesis by simp
  qed
  have "mset ?sorted = mset (subscribers st)" by (simp add: sorted_by_priority_def)
  with notify_run[of st] full show ?thesis
    unfolding subs by (simp add: sorted_by_priority_sorted sorted_by_priority_stable)
qed

theorem notify_priority_order_witness:
  "fst (notify (subscribed [subscriber_of 1 (Some ''application''),
          subscriber_of 5 (Some ''application''), subscriber_of 3 (Some ''application''),
          subscriber_of 5 None])) = Inr () \<and>
   map (\<lambda>call. (priority (fst call), namespace (fst call)))
     (delivered (snd (notify (subscribed [subscriber_of 1 (Some ''application''),
          subscriber_of 5 (Some ''application''), subscriber_of 3 (Some ''application''),
          subscriber_of 5 None])))) =
     [(5, Some ''application''), (5, None), (3, Some ''application''), (1, Some ''application'')]"
proof -
  let ?st = "subscribed [subscriber_of 1 (Some ''application''),
          subscriber_of 5 (Some ''application''), subscriber_of 3 (Some ''application''),
          subscriber_of 5 None]"
  have all: "list_all (returns ?st) (subscribers ?st)"
    by (simp add: returns_def reached_def argument_def subscribed_def client0_def
        subscriber_of_def)
  have subs: "subscribers (snd (notify ?st)) =
     [subscriber_of 5 (Some ''application''), subscriber_of 5 None,
      subscriber_of 3 (Some ''application''), subscriber_of 1 (Some ''application'')]"
    by (simp add: notify_subscribers subscribed_def client0_def subscriber_of_def
        sorted_by_priority_def)
  have d0: "delivered ?st = []"
    by (simp add: subscribed_def client0_def)
  have ok: "fst (notify ?st) = Inr ()"
    using notify_priority_order[of ?st, THEN conjunct2, THEN conjunct2, THEN conjunct2,
        THEN conjunct2, THEN conjunct1] all by (rule iffD2)
  have calls: "delivered (snd (notify ?st)) =
      delivered ?st @ map (\<lambda>s. (s, argument ?st s)) (subscribers (snd (notify ?st)))"
    using notify_priority_order[of ?st, THEN conjunct2, THEN conjunct2, THEN conjunct2,
        THEN conjunct2, THEN conjunct2] all by (rule mp)
  from calls show ?thesis
    unfolding subs d0 using ok by (simp add: subscriber_of_def)
qed

text \<open>
  The claim C6 as stated fails: of the subscribers with the priorities 1, 5 and 3
  the one with priority 5 raises, and the other two are never called.
\<close>

theorem notify_raising_action_counterexample:
  "fst (notify (subscribed [subscriber_of 1 (Some ''application''),
          raising_subscriber 5 (Some ''application''),
          subscriber_of 3 (Some ''application'')])) = Inl CallbackError \<and>
   map (\<lambda>call. priority (fst call))
     (delivered (snd (notify (subscribed [subscriber_of 1 (Some ''application''),
          raising_subscriber 5 (Some ''application''),
          subscriber_of 3 (Some ''application'')])))) = [5]"
  by (simp add: notify_def Let_def sorted_by_priority_def subscribed_def client0_def
      subscriber_of_def raising_subscriber_def)

section \<open>Cache update and diff\<close>

lemma config_response_of: "config (response_of items) = items"
  by (simp add: response_of_def)

lemma update_items_absent:
  "key \<notin> fst ` set items \<Longrightarrow> update_items items c key = c key"
  by (induction items c rule: update_items.induct) (auto split: option.splits)

lemma update_items_Cons:
  "update_items ((k, w) # rest) c =
     update_items rest
       (c(k \<mapsto> \<lparr>av_value = w,
                av_update = (case c k of None \<Rightarrow> True | Some cur \<Rightarrow> py_ne (av_value cur) w)\<rparr>))"
  by (simp split: option.splits)

lemma update_items_present:
  "distinct (map fst items) \<Longrightarrow> (key, v) \<in> set items \<Longrightarrow>
   update_items items c key =
     Some \<lparr>av_value = v,
           av_update = (case c key of None \<Rightarrow> True | Some cur \<Rightarrow> py_ne (av_value cur) v)\<rparr>"
proof (induction items arbitrary: c)
  case Nil
  then show ?case by simp
next
  case (Cons item rest)
  obtain k w where item: "item = (k, w)" by (cases item)
  show ?case
  proof (cases "key = k")
    case True
    with Cons.prems item have "key \<notin> fst ` set rest" and "v = w"
      by (auto simp: image_iff)
    then show ?thesis
      unfolding item update_items_Cons using True by (auto simp add: update_items_absent)
  next
    case False
    with Cons.prems item have "(key, v) \<in> set rest" and "distinct (map fst rest)" by auto
    from Cons.IH[OF this(2) this(1)] False show ?thesis
      unfolding item update_items_Cons by simp
  qed
qed

lemma update_namespace_config:
  "namespace_config (snd (update server_response ns st)) ns =
     update_items (config server_response) (namespace_config st ns)"
  by (simp add: update_def notify_configs namespace_config_def)

lemma update_calls_first_subscriber:
  assumes "subscribers st \<noteq> []"
    and "list_all (\<lambda>s. namespace s = Some ns) (subscribers st)"
  shows "\<exists>s calls. delivered (snd (update server_response ns st)) =
           delivered st @
             (s, Some (update_items (config server_response) (namespace_config st ns))) # calls"
proof -
  let ?new = "update_items (config server_response) (namespace_config st ns)"
  let ?subs = "sorted_by_priority (subscribers st)"
  let ?st' = "st\<lparr>configs := (configs st)(ns \<mapsto> ?new), subscribers := ?subs\<rparr>"
  have same: "set ?subs = set (subscribers st)" by (simp add: sorted_by_priority_def)
  with assms(1) have "?subs \<noteq> []" by (metis set_empty)
  then obtain h rest where subs: "?subs = h # rest" by (cases ?subs) auto
  then have "h \<in> set (subscribers st)" using same by (metis list.set_intros(1))
  with assms(2) have h: "namespace h = Some ns" by (simp add: list_all_iff)
  let ?st1 = "?st'\<lparr>delivered := delivered st @ [(h, Some ?new)]\<rparr>"
  have run: "update server_response ns st = notify_all (h # rest) ?st'"
    using subs by (simp add: update_def notify_def Let_def)
  show ?thesis
  proof (cases "action h (Some ?new)")
    case None
    with h have "notify_all (h # rest) ?st' = notify_all rest ?st1" by (simp add: Let_def)
    moreover from notify_all_delivered[of rest ?st1] obtain calls where
      "delivered (snd (notify_all rest ?st1)) = delivered ?st1 @ calls" by blast
    ultimately have "delivered (snd (update server_response ns st)) =
        delivered st @ (h, Some ?new) # calls"
      using run by simp
    then show ?thesis by blast
  next
    case (Some err)
    with h have "notify_all (h # rest) ?st' = (Inl err, ?st1)" by (simp add: Let_def)
    with run have "delivered (snd (update server_response ns st)) =
        delivered st @ (h, Some ?new) # []"
      by simp
    then show ?thesis by blast
  qed
qed

text \<open>
  C3. The keys of a dict are distinct. For each key of the remote map, \<^verbatim>\<open>update\<close>
  leaves the remote value in the namespace cache, flagged \<^verbatim>\<open>update=False\<close> when the
  key was there with an equal value and \<^verbatim>\<open>update=True\<close> when it was there with another
  value (one that \<^verbatim>\<open>!=\<close> tells from the remote value) or was not there. Whatever the flags, the call ends in \<^verbatim>\<open>notify\<close>, run on the
  updated client: when subscribers of the namespace are registered, an action is
  called with the updated configuration of the namespace.
\<close>

theorem update_marks_and_notifies:
  assumes "distinct (map fst (config server_response))"
  shows "(\<forall>(key, v) \<in> set (config server_response).
            namespace_config (snd (update server_response ns st)) ns key =
              Some \<lparr>av_value = v,
                    av_update = (case namespace_config st ns key of
                                   None \<Rightarrow> True
                                 | Some cur \<Rightarrow> py_ne (av_value cur) v)\<rparr>) \<and>
         update server_response ns st =
           notify (st\<lparr>configs := (configs st)
             (ns \<mapsto> update_items (config server_response) (namespace_config st ns))\<rparr>) \<and>
         (subscribers st \<noteq> [] \<and> list_all (\<lambda>s. namespace s = Some ns) (subscribers st) \<longrightarrow>
            (\<exists>s calls. delivered (snd (update server_response ns st)) =
               delivered st @
                 (s, Some (update_items (config server_response) (namespace_config st ns)))
                 # calls))"
proof (intro conjI impI)
  show "\<forall>(key, v) \<in> set (config server_response).
            namespace_config (snd (update server_response ns st)) ns key =
              Some \<lparr>av_value = v,
                    av_update = (case namespace_config st ns key of
                                   None \<Rightarrow> True
                                 | Some cur \<Rightarrow> py_ne (av_value cur) v)\<rparr>"
    using assms by (auto simp: update_namespace_config update_items_present)
next
  show "update server_response ns st =
           notify (st\<lparr>configs := (configs st)
             (ns \<mapsto> update_items (config server_response) (namespace_config st ns))\<rparr>)"
    by (simp add: update_def)
next
  assume "subscribers st \<noteq> [] \<and> list_all (\<lambda>s. namespace s = Some ns) (subscribers st)"
  then show "\<exists>s calls. delivered (snd (update server_response ns st)) =
               delivered st @
                 (s, Some (update_items (config server_response) (namespace_config st ns)))
                 # calls"
    using update_calls_first_subscriber by blast
qed

theorem update_marks_and_notifies_witness:
  "namespace_config
     (snd (update (response_of [(''a'', JStr ''1''), (''b'', JStr ''3''), (''c'', JStr ''4'')])
        ''application''
        (snd (update (response_of [(''a'', JStr ''1''), (''b'', JStr ''2'')]) ''application''
           (subscribed [subscriber_of 1 (Some ''application'')])))))
     ''application'' =
     [''a'' \<mapsto> \<lparr>av_value = JStr ''1'', av_update = False\<rparr>,
      ''b'' \<mapsto> \<lparr>av_value = JStr ''3'', av_update = True\<rparr>,
      ''c'' \<mapsto> \<lparr>av_value = JStr ''4'', av_update = True\<rparr>] \<and>
   map (priority \<circ> fst)
     (delivered
        (snd (update (response_of [(''a'', JStr ''1''), (''b'', JStr ''2'')]) ''application''
           (snd (update (response_of [(''a'', JStr ''1''), (''b'', JStr ''2'')]) ''application''
              (subscribed [subscriber_of 1 (Some ''application'')])))))) = [1, 1] \<and>
   length (delivered
        (snd (update (response_of [(''a'', JStr ''1''), (''b'', JStr ''2'')]) ''application''
           (subscribed [subscriber_of 1 (Some ''application'')])))) <
   length (delivered
        (snd (update (response_of [(''a'', JStr ''1''), (''b'', JStr ''2'')]) ''application''
           (snd (update (response_of [(''a'', JStr ''1''), (''b'', JStr ''2'')]) ''application''
              (subscribed [subscriber_of 1 (Some ''application'')]))))))"
proof -
  let ?r1 = "response_of [(''a'', JStr ''1''), (''b'', JStr ''2'')]"
  let ?r2 = "response_of [(''a'', JStr ''1''), (''b'', JStr ''3''), (''c'', JStr ''4'')]"
  let ?st0 = "subscribed [subscriber_of 1 (Some ''application'')]"
  let ?st1 = "snd (update ?r1 ''application'' ?st0)"
  have c0: "namespace_config ?st0 ''application'' = Map.empty"
    by (simp add: namespace_config_def subscribed_def client0_def)
  have c1: "namespace_config ?st1 ''application'' =
      [''a'' \<mapsto> \<lparr>av_value = JStr ''1'', av_update = True\<rparr>,
       ''b'' \<mapsto> \<lparr>av_value = JStr ''2'', av_update = True\<rparr>]"
    by (simp add: update_namespace_config c0 config_response_of)
  have d: "distinct (map fst (config ?r2))" by (simp add: config_response_of)
  from update_marks_and_notifies[OF d, of "''application''" ?st1, THEN conjunct1]
  have keys: "namespace_config (snd (update ?r2 ''application'' ?st1)) ''application'' ''a'' =
        Some \<lparr>av_value = JStr ''1'', av_update = False\<rparr>"
      "namespace_config (snd (update ?r2 ''application'' ?st1)) ''application'' ''b'' =
        Some \<lparr>av_value = JStr ''3'', av_update = True\<rparr>"
      "namespace_config (snd (update ?r2 ''application'' ?st1)) ''application'' ''c'' =
        Some \<lparr>av_value = JStr ''4'', av_update = True\<rparr>"
    unfolding c1 by (simp_all add: config_response_of py_ne_def)
  have other: "\<And>k. k \<noteq> ''a'' \<Longrightarrow> k \<noteq> ''b'' \<Longrightarrow> k \<noteq> ''c'' \<Longrightarrow>
      namespace_config (snd (update ?r2 ''application'' ?st1)) ''application'' k = None"
    by (simp add: update_namespace_config c0 config_response_of)
  have part1: "namespace_config (snd (update ?r2 ''application'' ?st1)) ''application'' =
     [''a'' \<mapsto> \<lparr>av_value = JStr ''1'', av_update = False\<rparr>,
      ''b'' \<mapsto> \<lparr>av_value = JStr ''3'', av_update = True\<rparr>,
      ''c'' \<mapsto> \<lparr>av_value = JStr ''4'', av_update = True\<rparr>]"
  proof (rule ext)
    fix k
    show "namespace_config (snd (update ?r2 ''application'' ?st1)) ''application'' k =
       [''a'' \<mapsto> \<lparr>av_value = JStr ''1'', av_update = False\<rparr>,
        ''b'' \<mapsto> \<lparr>av_value = JStr ''3'', av_update = True\<rparr>,
        ''c'' \<mapsto> \<lparr>av_value = JStr ''4'', av_update = True\<rparr>] k"
      using keys other[of k] by (cases "k = ''a''"; cases "k = ''b''"; cases "k = ''c''") simp_all
  qed
  have part2: "map (priority \<circ> fst) (delivered (snd (update ?r1 ''application'' ?st1))) = [1, 1]"
    by (simp add: update_def notify_def Let_def sorted_by_priority_def namespace_config_def
        subscribed_def client0_def subscriber_of_def response_of_def)
  have d1: "distinct (map fst (config ?r1))" by (simp add: config_response_of)
  have subs1: "subscribers ?st1 = [subscriber_of 1 (Some ''application'')]"
    by (simp add: update_def notify_subscribers sorted_by_priority_def subscribed_def)
  from update_marks_and_notifies[OF d1, of "''application''" ?st1, THEN conjunct2, THEN conjunct2]
    subs1
  have "\<exists>s calls. delivered (snd (update ?r1 ''application'' ?st1)) =
      delivered ?st1 @
        (s, Some (update_items (config ?r1) (namespace_config ?st1 ''application''))) # calls"
    by (simp add: subscriber_of_def)
  then have part3: "length (delivered ?st1) <
      length (delivered (snd (update ?r1 ''application'' ?st1)))"
    by auto
  from part1 part2 part3 show ?thesis by simp
qed

text \<open>
  C4. A key that the remote map does not have keeps its entry in the namespace
  cache, value and flag, through \<^verbatim>\<open>update\<close>: nothing is deleted.
\<close>

theorem update_keeps_absent_keys:
  assumes "key \<notin> fst ` set (config server_response)"
  shows "namespace_config (snd (update server_response ns st)) ns key =
           namespace_config st ns key"
  using assms by (simp add: update_namespace_config update_items_absent)

theorem update_keeps_absent_keys_witness:
  "namespace_config
     (snd (update (response_of [(''x'', JStr ''1'')]) ''application''
        (snd (update (response_of [(''old'', JStr ''0'')]) ''application'' client0))))
     ''application'' ''old'' = Some \<lparr>av_value = JStr ''0'', av_update = True\<rparr>"
proof -
  have "namespace_config client0 ''application'' = Map.empty"
    by (simp add: namespace_config_def client0_def)
  then have "namespace_config
      (snd (update (response_of [(''old'', JStr ''0'')]) ''application'' client0))
      ''application'' ''old'' = Some \<lparr>av_value = JStr ''0'', av_update = True\<rparr>"
    by (simp add: update_namespace_config response_of_def)
  with update_keeps_absent_keys[of "''old''" "response_of [(''x'', JStr ''1'')]" "''application''"
      "snd (update (response_of [(''old'', JStr ''0'')]) ''application'' client0)"]
  show ?thesis by (simp add: response_of_def)
qed

text \<open>
  C5, as the code has it. After two calls of \<^verbatim>\<open>update\<close> with the same remote map, a key
  of that map is flagged \<^verbatim>\<open>update=False\<close> when its value is not a NaN, and
  \<^verbatim>\<open>update=True\<close> when it is one (\<^verbatim>\<open>!=\<close> tells a NaN from itself); a key the map does
  not have keeps the entry it had before the two calls, with its flag.
\<close>

theorem update_twice_flags:
  assumes "distinct (map fst (config server_response))"
  shows "(\<forall>(key, v) \<in> set (config server_response).
            namespace_config
              (snd (update server_response ns (snd (update server_response ns st)))) ns key =
              Some \<lparr>av_value = v, av_update = is_nan v\<rparr>) \<and>
         (\<forall>key. key \<notin> fst ` set (config server_response) \<longrightarrow>
            namespace_config
              (snd (update server_response ns (snd (update server_response ns st)))) ns key =
              namespace_config st ns key)"
  using assms
  by (auto simp: update_namespace_config update_items_present update_items_absent py_ne_def)

theorem update_twice_flags_witness:
  "namespace_config
     (snd (update (response_of [(''x'', JStr ''1''), (''n'', JNaN 0), (''l'', JArr [JNaN 0])])
        ''application''
        (snd (update (response_of [(''x'', JStr ''1''), (''n'', JNaN 0), (''l'', JArr [JNaN 0])])
           ''application'' client0))))
     ''application'' ''x'' =
     Some \<lparr>av_value = JStr ''1'', av_update = False\<rparr> \<and>
   namespace_config
     (snd (update (response_of [(''x'', JStr ''1''), (''n'', JNaN 0), (''l'', JArr [JNaN 0])])
        ''application''
        (snd (update (response_of [(''x'', JStr ''1''), (''n'', JNaN 0), (''l'', JArr [JNaN 0])])
           ''application'' client0))))
     ''application'' ''n'' =
     Some \<lparr>av_value = JNaN 0, av_update = True\<rparr> \<and>
   namespace_config
     (snd (update (response_of [(''x'', JStr ''1''), (''n'', JNaN 0), (''l'', JArr [JNaN 0])])
        ''application''
        (snd (update (response_of [(''x'', JStr ''1''), (''n'', JNaN 0), (''l'', JArr [JNaN 0])])
           ''application'' client0))))
     ''application'' ''l'' =
     Some \<lparr>av_value = JArr [JNaN 0], av_update = False\<rparr> \<and>
   namespace_config
     (snd (update (response_of [(''x'', JStr ''1''), (''n'', JNaN 0), (''l'', JArr [JNaN 0])])
        ''application''
        (snd (update (response_of [(''x'', JStr ''1''), (''n'', JNaN 0), (''l'', JArr [JNaN 0])])
           ''application'' client0))))
     ''application'' ''y'' = None"
proof -
  have "namespace_config client0 ''application'' ''y'' = None"
    by (simp add: namespace_config_def client0_def)
  with update_twice_flags[of
      "response_of [(''x'', JStr ''1''), (''n'', JNaN 0), (''l'', JArr [JNaN 0])]"
      "''application''" client0]
  show ?thesis by (simp add: response_of_def)
qed

text \<open>
  The claim C5 as stated fails: a key that an earlier response had and the current
  one has not keeps \<^verbatim>\<open>update=True\<close> through both calls.
\<close>

theorem update_twice_stale_flag_counterexample:
  "namespace_config
     (snd (update (response_of [(''x'', JStr ''1'')]) ''application''
        (snd (update (response_of [(''x'', JStr ''1'')]) ''application''
           (snd (update (response_of [(''old'', JStr ''0'')]) ''application'' client0))))))
     ''application'' ''old'' = Some \<lparr>av_value = JStr ''0'', av_update = True\<rparr>"
proof -
  have "namespace_config client0 ''application'' = Map.empty"
    by (simp add: namespace_config_def client0_def)
  then show ?thesis
    by (simp add: update_namespace_config response_of_def py_ne_def)
qed

section \<open>Snapshot round trip\<close>








section \<open>Reading a value as JSON\<close>

text \<open>
  C10, as the code has it. \<^verbatim>\<open>get_json_value\<close> looks the key up with \<^verbatim>\<open>None\<close> as the
  default, whatever \<open>default_val\<close> is. When the value found is not a string (the key
  or the namespace is absent, or the value is of another type) or is a string on
  which \<^verbatim>\<open>json.loads\<close> raises \<^verbatim>\<open>JSONDecodeError\<close> (or \<^verbatim>\<open>TypeError\<close>), the result is
  \<open>default_val\<close> if that is truthy and the empty dict otherwise, so never \<^verbatim>\<open>None\<close>. When
  the string parses, the result is the parsed value, whatever it is and whatever
  \<open>default_val\<close> is. Any other exception of \<^verbatim>\<open>json.loads\<close> leaves \<^verbatim>\<open>get_json_value\<close>.
\<close>

theorem get_json_value_fallback:
  "((\<forall>s. get_value key JNull ns st \<noteq> JStr s) \<longrightarrow>
      get_json_value e key default_val ns st =
        Inr (if truthy default_val then default_val else JObj fmempty)) \<and>
   (get_value key JNull ns st = JStr s \<and>
    (json_loads e s = Inl JSONDecodeError \<or> json_loads e s = Inl TypeError) \<longrightarrow>
      get_json_value e key default_val ns st =
        Inr (if truthy default_val then default_val else JObj fmempty)) \<and>
   (get_value key JNull ns st = JStr s \<and> json_loads e s = Inr v \<longrightarrow>
      get_json_value e key default_val ns st = Inr v) \<and>
   (get_value key JNull ns st = JStr s \<and> json_loads e s = Inl err \<and>
    err \<noteq> JSONDecodeError \<and> err \<noteq> TypeError \<longrightarrow>
      get_json_value e key default_val ns st = Inl err) \<and>
   (if truthy default_val then default_val else JObj fmempty) \<noteq> JNull"
proof (intro conjI impI)
  assume "\<forall>s. get_value key JNull ns st \<noteq> JStr s"
  then have "py_json_loads e (get_value key JNull ns st) = Inl TypeError"
    by (cases "get_value key JNull ns st") auto
  then show "get_json_value e key default_val ns st =
        Inr (if truthy default_val then default_val else JObj fmempty)"
    by (simp add: get_json_value_def)
next
  assume "get_value key JNull ns st = JStr s \<and>
    (json_loads e s = Inl JSONDecodeError \<or> json_loads e s = Inl TypeError)"
  then show "get_json_value e key default_val ns st =
        Inr (if truthy default_val then default_val else JObj fmempty)"
    by (auto simp: get_json_value_def)
next
  assume "get_value key JNull ns st = JStr s \<and> json_loads e s = Inr v"
  then show "get_json_value e key default_val ns st = Inr v"
    by (simp add: get_json_value_def)
next
  assume "get_value key JNull ns st = JStr s \<and> json_loads e s = Inl err \<and>
    err \<noteq> JSONDecodeError \<and> err \<noteq> TypeError"
  then show "get_json_value e key default_val ns st = Inl err"
    by (simp add: get_json_value_def)
next
  show "(if truthy default_val then default_val else JObj fmempty) \<noteq> JNull"
    by auto
qed

theorem get_json_value_fallback_witness:
  \<open>get_json_value (world HttpRaises HttpRaises) ''missing'' JNull ''application''
      (cached [(''k'', JStr ''{"k": "v"}''), (''bad'', JStr ''{''),
               (''big'', JStr (replicate 4301 (CHR ''1'')))]) = Inr (JObj fmempty) \<and>
   get_json_value (world HttpRaises HttpRaises) ''bad'' JNull ''application''
      (cached [(''k'', JStr ''{"k": "v"}''), (''bad'', JStr ''{''),
               (''big'', JStr (replicate 4301 (CHR ''1'')))]) = Inr (JObj fmempty) \<and>
   get_json_value (world HttpRaises HttpRaises) ''k'' JNull ''application''
      (cached [(''k'', JStr ''{"k": "v"}''), (''bad'', JStr ''{''),
               (''big'', JStr (replicate 4301 (CHR ''1'')))]) =
      Inr (JObj (fmap_of_list [(''k'', JStr ''v'')])) \<and>
   get_json_value (world HttpRaises HttpRaises) ''big'' JNull ''application''
      (cached [(''k'', JStr ''{"k": "v"}''), (''bad'', JStr ''{''),
               (''big'', JStr (replicate 4301 (CHR ''1'')))]) = Inl ValueError\<close>
proof -
  let ?e = "world HttpRaises HttpRaises"
  let ?big = "replicate 4301 (CHR ''1'')"
  let ?st = \<open>cached [(''k'', JStr ''{"k": "v"}''), (''bad'', JStr ''{''), (''big'', JStr ?big)]\<close>
  have a: "get_value ''missing'' JNull ''application'' ?st = JNull"
    and b: "get_value ''bad'' JNull ''application'' ?st = JStr ''{''"
    and c: \<open>get_value ''k'' JNull ''application'' ?st = JStr ''{"k": "v"}''\<close>
    and d: "get_value ''big'' JNull ''application'' ?st = JStr ?big"
    by (simp_all add: get_value_def cached_def client0_def)
  have lb: "json_loads ?e ''{'' = Inl JSONDecodeError"
    and lc: \<open>json_loads ?e ''{"k": "v"}'' = Inr (JObj (fmap_of_list [(''k'', JStr ''v'')]))\<close>
    by (simp_all add: world_def sample_loads_def)
  have ld: "json_loads ?e ?big = Inl ValueError"
    by (simp add: world_def sample_loads_def list_all_iff)
  from get_json_value_fallback[where key="''missing''" and ns="''application''" and st="?st"
      and e="?e" and default_val=JNull] a
  have "get_json_value ?e ''missing'' JNull ''application'' ?st = Inr (JObj fmempty)" by simp
  moreover from get_json_value_fallback[where key="''bad''" and ns="''application''"
      and st="?st" and e="?e" and default_val=JNull and s="''{''"] b lb
  have "get_json_value ?e ''bad'' JNull ''application'' ?st = Inr (JObj fmempty)" by simp
  moreover from get_json_value_fallback[where key="''k''" and ns="''application''"
      and st="?st" and e="?e" and default_val=JNull] c lc
  have "get_json_value ?e ''k'' JNull ''application'' ?st =
      Inr (JObj (fmap_of_list [(''k'', JStr ''v'')]))"
    by simp
  moreover from get_json_value_fallback[where key="''big''" and ns="''application''"
      and st="?st" and e="?e" and default_val=JNull and s="?big" and err=ValueError] d ld
  have "get_json_value ?e ''big'' JNull ''application'' ?st = Inl ValueError"
    by simp
  ultimately show ?thesis by simp
qed

text \<open>
  The claim C10 as stated fails: the stored text \<^verbatim>\<open>null\<close> parses, to \<^verbatim>\<open>None\<close>, and
  \<^verbatim>\<open>get_json_value\<close> returns it, even with a dict as \<open>default_val\<close>.
\<close>

theorem get_json_value_null_counterexample:
  "get_json_value (world HttpRaises HttpRaises) ''k'' (JObj fmempty) ''application''
     (cached [(''k'', JStr ''null'')]) = Inr JNull"
  by (simp add: get_json_value_def get_value_def cached_def client0_def world_def
      sample_loads_def)

section \<open>Fetch or fall back: what crosses the boundary\<close>

lemma update_config_server_cache: "cache (snd (update_config_server e exclude st)) = cache st"
  by (simp add: update_config_server_def split: sum.splits)

lemma fetch_config_by_namespace_fallback:
  assumes "fetch_remote e (''configs/'' @ app_id st @ ''/'' @ cluster st @ ''/'' @ ns) ns st =
             (Inl err, st1)"
    and "get_local_file_cache e ns st1 = Inr data"
  shows "cache (snd (fetch_config_by_namespace e ns st)) ns = Some data \<and>
         fst (fetch_config_by_namespace e ns st) =
           (case fst (update_config_server e (config_server_url st1) (update_cache ns data st1)) of
              Inl err' \<Rightarrow> Inl err'
            | Inr url \<Rightarrow> Inr ())"
proof -
  let ?st2 = "update_cache ns data st1"
  have c: "config_server_url ?st2 = config_server_url st1" by (simp add: update_cache_def)
  obtain r st3 where u: "update_config_server e (config_server_url st1) ?st2 = (r, st3)"
    by (cases "update_config_server e (config_server_url st1) ?st2")
  then have "cache st3 = cache ?st2"
    using update_config_server_cache[of e "config_server_url st1" ?st2] by simp
  then have "cache st3 ns = Some data" by (simp add: update_cache_def)
  with assms u c show ?thesis
    by (cases r) (simp_all add: fetch_config_by_namespace_def Let_def)
qed

lemma fetch_config_by_namespace_read_raises:
  assumes "fetch_remote e (''configs/'' @ app_id st @ ''/'' @ cluster st @ ''/'' @ ns) ns st =
             (Inl err, st1)"
    and "get_local_file_cache e ns st1 = Inl err'"
  shows "fetch_config_by_namespace e ns st = (Inl err', st1)"
  using assms by (simp add: fetch_config_by_namespace_def Let_def)

lemma update_local_file_cache_cache:
  "cache (snd (update_local_file_cache e rkey data ns st)) = cache st"
  by (simp add: update_local_file_cache_def split: sum.splits)

lemma fetch_remote_raises_state:
  assumes "fetch_remote e url ns st = (Inl err, st1)"
  shows "st1 = st \<or> cache st1 ns \<noteq> None"
proof (cases "http_get e (http_client_meta_url st @ url)")
  case HttpRaises
  with assms show ?thesis by (simp add: fetch_remote_def)
next
  case (HttpResponse status_code body)
  show ?thesis
  proof (cases "status_code = 200")
    case False
    with assms HttpResponse show ?thesis
      by (auto simp: fetch_remote_def split: sum.splits)
  next
    case True
    show ?thesis
    proof (cases body)
      case None
      with assms HttpResponse True show ?thesis by (simp add: fetch_remote_def)
    next
      case (Some data)
      show ?thesis
      proof (cases "py_get data ''configurations'' (JObj fmempty)")
        case (Inl a)
        with assms HttpResponse True Some show ?thesis by (simp add: fetch_remote_def)
      next
        case configurations: (Inr configurations)
        show ?thesis
        proof (cases "py_get data ''releaseKey'' (JStr (now e))")
          case (Inl a)
          with assms HttpResponse True Some configurations show ?thesis
            by (simp add: fetch_remote_def)
        next
          case (Inr rkey)
          with assms HttpResponse True Some configurations
          have "st1 = snd (update_local_file_cache e rkey configurations ns
              (update_cache ns configurations st))"
            by (simp add: fetch_remote_def)
          then have "cache st1 = cache (update_cache ns configurations st)"
            by (simp add: update_local_file_cache_cache)
          then show ?thesis by (simp add: update_cache_def)
        qed
      qed
    qed
  qed
qed

lemma fetch_remote_returns_cache:
  assumes "fetch_remote e url ns st = (Inr u, st1)"
  shows "cache st1 ns \<noteq> None"
proof (cases "http_get e (http_client_meta_url st @ url)")
  case HttpRaises
  with assms show ?thesis by (simp add: fetch_remote_def)
next
  case (HttpResponse status_code body)
  show ?thesis
  proof (cases "status_code = 200")
    case False
    with assms HttpResponse show ?thesis
      by (auto simp: fetch_remote_def update_cache_def split: sum.splits)
  next
    case True
    show ?thesis
    proof (cases body)
      case None
      with assms HttpResponse True show ?thesis by (simp add: fetch_remote_def)
    next
      case (Some data)
      show ?thesis
      proof (cases "py_get data ''configurations'' (JObj fmempty)")
        case (Inl a)
        with assms HttpResponse True Some show ?thesis by (simp add: fetch_remote_def)
      next
        case configurations: (Inr configurations)
        show ?thesis
        proof (cases "py_get data ''releaseKey'' (JStr (now e))")
          case (Inl a)
          with assms HttpResponse True Some configurations show ?thesis
            by (simp add: fetch_remote_def)
        next
          case (Inr rkey)
          with assms HttpResponse True Some configurations
          have "st1 = snd (update_local_file_cache e rkey configurations ns
              (update_cache ns configurations st))"
            by (simp add: fetch_remote_def)
          then have "cache st1 = cache (update_cache ns configurations st)"
            by (simp add: update_local_file_cache_cache)
          then show ?thesis by (simp add: update_cache_def)
        qed
      qed
    qed
  qed
qed

lemma load_files_cache:
  "cache st ns \<noteq> None \<Longrightarrow> cache (snd (load_files e names st)) ns \<noteq> None"
proof (induction names arbitrary: st)
  case Nil
  then show ?case by simp
next
  case (Cons file_name rest)
  have step: "cache (snd (load_files e rest (update_cache other data st))) ns \<noteq> None"
    for other data
    using Cons.prems by (intro Cons.IH) (simp add: update_cache_def)
  from Cons.IH[OF Cons.prems] Cons.prems step show ?case
    by (auto simp: Let_def split: prod.splits sum.splits option.splits)
qed

lemma load_local_cache_file_returns:
  "\<exists>loaded. fst (load_local_cache_file e st) = Inr loaded"
  by (auto simp: load_local_cache_file_def split: prod.splits sum.splits)

lemma load_local_cache_file_cache:
  assumes "cache st ns \<noteq> None"
  shows "cache (snd (load_local_cache_file e st)) ns \<noteq> None"
proof -
  have "snd (load_local_cache_file e st) = snd (load_files e (listdir (disk st)) st)"
    by (simp add: load_local_cache_file_def split: prod.splits sum.splits)
  with load_files_cache[OF assms, of e "listdir (disk st)"] show ?thesis by simp
qed

lemma fetch_config_by_namespace_cache:
  assumes "get_local_file_cache e ns st = Inr data'"
  shows "cache (snd (fetch_config_by_namespace e ns st)) ns \<noteq> None"
proof -
  let ?url = "''configs/'' @ app_id st @ ''/'' @ cluster st @ ''/'' @ ns"
  obtain r st1 where remote: "fetch_remote e ?url ns st = (r, st1)"
    by (cases "fetch_remote e ?url ns st")
  show ?thesis
  proof (cases r)
    case (Inr u)
    with remote fetch_remote_returns_cache[of e ?url ns st u st1] show ?thesis
      by (simp add: fetch_config_by_namespace_def Let_def)
  next
    case (Inl err)
    with remote have raised: "fetch_remote e ?url ns st = (Inl err, st1)" by simp
    show ?thesis
    proof (cases "get_local_file_cache e ns st1")
      case read: (Inr data)
      from fetch_config_by_namespace_fallback[OF raised read] show ?thesis by simp
    next
      case read: (Inl err')
      with assms have "st1 \<noteq> st" by auto
      with fetch_remote_raises_state[OF raised] have "cache st1 ns \<noteq> None" by simp
      with fetch_config_by_namespace_read_raises[OF raised read] show ?thesis by simp
    qed
  qed
qed

lemma fetch_configuration_returns: "fst (fetch_configuration e st) = Inr ()"
proof -
  obtain r st1 where f: "fetch_config_by_namespace e (client_namespace st) st = (r, st1)"
    by (cases "fetch_config_by_namespace e (client_namespace st) st")
  show ?thesis
  proof (cases r)
    case (Inr u)
    with f show ?thesis by (simp add: fetch_configuration_def)
  next
    case (Inl err)
    obtain loaded where "fst (load_local_cache_file e st1) = Inr loaded"
      using load_local_cache_file_returns by blast
    with f Inl show ?thesis
      by (cases "load_local_cache_file e st1") (simp add: fetch_configuration_def)
  qed
qed

lemma fetch_configuration_cache:
  assumes "get_local_file_cache e (client_namespace st) st = Inr data'"
  shows "cache (snd (fetch_configuration e st)) (client_namespace st) \<noteq> None"
proof -
  let ?ns = "client_namespace st"
  obtain r st1 where f: "fetch_config_by_namespace e ?ns st = (r, st1)"
    by (cases "fetch_config_by_namespace e ?ns st")
  with fetch_config_by_namespace_cache[OF assms] have c: "cache st1 ?ns \<noteq> None" by simp
  show ?thesis
  proof (cases r)
    case (Inr u)
    with f c show ?thesis by (simp add: fetch_configuration_def)
  next
    case (Inl err)
    with f have "snd (fetch_configuration e st) = snd (load_local_cache_file e st1)"
      by (simp add: fetch_configuration_def split: prod.splits sum.splits)
    with load_local_cache_file_cache[OF c, of e] show ?thesis by simp
  qed
qed

text \<open>
  C1, as the code has it. \<^verbatim>\<open>fetch_configuration\<close> never raises; it leaves a cache entry
  for the namespace of the client when the read of the snapshot of that namespace
  returns, as it does for a file that is missing or is not JSON, which reads as the
  empty dict. \<^verbatim>\<open>fetch_config_by_namespace\<close> reads the snapshot on a status other than
  200: when the read returns, it installs what was read as the cache of the
  namespace and returns; when the read raises, that exception leaves the function,
  and nothing is installed. Whenever the body of its \<^verbatim>\<open>try\<close> raises, as it does when
  the request raises and when the body of a 200 response is not JSON, it reads the
  snapshot as well: when the read raises, that exception leaves the function, with
  no call of \<^verbatim>\<open>update_config_server\<close>; when the read returns, it installs what was
  read and then calls \<^verbatim>\<open>update_config_server\<close>, and it raises exactly when that call
  raises, with the same exception, the cache holding the snapshot either way.
\<close>

theorem fetch_configuration_never_raises:
  "fst (fetch_configuration e st) = Inr () \<and>
   (get_local_file_cache e (client_namespace st) st = Inr data' \<longrightarrow>
      cache (snd (fetch_configuration e st)) (client_namespace st) \<noteq> None) \<and>
   (http_get e (http_client_meta_url st @
        ''configs/'' @ app_id st @ ''/'' @ cluster st @ ''/'' @ ns) = HttpResponse code body \<and>
      code \<noteq> 200 \<and> get_local_file_cache e ns st = Inr data \<longrightarrow>
      fetch_config_by_namespace e ns st = (Inr (), update_cache ns data st)) \<and>
   (http_get e (http_client_meta_url st @
        ''configs/'' @ app_id st @ ''/'' @ cluster st @ ''/'' @ ns) = HttpResponse code body \<and>
      code \<noteq> 200 \<and> get_local_file_cache e ns st = Inl err' \<longrightarrow>
      fetch_config_by_namespace e ns st = (Inl err', st)) \<and>
   (http_get e (http_client_meta_url st @
        ''configs/'' @ app_id st @ ''/'' @ cluster st @ ''/'' @ ns) = HttpRaises \<longrightarrow>
      fetch_remote e (''configs/'' @ app_id st @ ''/'' @ cluster st @ ''/'' @ ns) ns st =
        (Inl RequestException, st)) \<and>
   (http_get e (http_client_meta_url st @
        ''configs/'' @ app_id st @ ''/'' @ cluster st @ ''/'' @ ns) = HttpResponse 200 None \<longrightarrow>
      fetch_remote e (''configs/'' @ app_id st @ ''/'' @ cluster st @ ''/'' @ ns) ns st =
        (Inl JSONDecodeError, st)) \<and>
   (fetch_remote e (''configs/'' @ app_id st @ ''/'' @ cluster st @ ''/'' @ ns) ns st =
        (Inl err, st1) \<and>
      get_local_file_cache e ns st1 = Inr data \<longrightarrow>
      cache (snd (fetch_config_by_namespace e ns st)) ns = Some data \<and>
      fst (fetch_config_by_namespace e ns st) =
        (case fst (update_config_server e (config_server_url st1) (update_cache ns data st1)) of
           Inl err' \<Rightarrow> Inl err'
         | Inr url \<Rightarrow> Inr ())) \<and>
   (fetch_remote e (''configs/'' @ app_id st @ ''/'' @ cluster st @ ''/'' @ ns) ns st =
        (Inl err, st1) \<and>
      get_local_file_cache e ns st1 = Inl err' \<longrightarrow>
      fetch_config_by_namespace e ns st = (Inl err', st1))"
proof -
  let ?url = "''configs/'' @ app_id st @ ''/'' @ cluster st @ ''/'' @ ns"
  have never: "fst (fetch_configuration e st) = Inr ()"
    by (rule fetch_configuration_returns)
  have status: "fetch_config_by_namespace e ns st = (Inr (), update_cache ns data st)"
    if "http_get e (http_client_meta_url st @ ?url) = HttpResponse code body"
      and "code \<noteq> 200" and "get_local_file_cache e ns st = Inr data"
    using that by (simp add: fetch_config_by_namespace_def fetch_remote_def Let_def)
  have status_raises: "fetch_config_by_namespace e ns st = (Inl err', st)"
    if "http_get e (http_client_meta_url st @ ?url) = HttpResponse code body"
      and "code \<noteq> 200" and "get_local_file_cache e ns st = Inl err'"
    using that by (simp add: fetch_config_by_namespace_def fetch_remote_def Let_def)
  have raises: "fetch_remote e ?url ns st = (Inl RequestException, st)"
    if "http_get e (http_client_meta_url st @ ?url) = HttpRaises"
    using that by (simp add: fetch_remote_def)
  have malformed: "fetch_remote e ?url ns st = (Inl JSONDecodeError, st)"
    if "http_get e (http_client_meta_url st @ ?url) = HttpResponse 200 None"
    using that by (simp add: fetch_remote_def)
  have fallback: "cache (snd (fetch_config_by_namespace e ns st)) ns = Some data \<and>
      fst (fetch_config_by_namespace e ns st) =
        (case fst (update_config_server e (config_server_url st1) (update_cache ns data st1)) of
           Inl err' \<Rightarrow> Inl err'
         | Inr url \<Rightarrow> Inr ())"
    if "fetch_remote e ?url ns st = (Inl err, st1)" and "get_local_file_cache e ns st1 = Inr data"
    using that by (rule fetch_config_by_namespace_fallback)
  have read_raises: "fetch_config_by_namespace e ns st = (Inl err', st1)"
    if "fetch_remote e ?url ns st = (Inl err, st1)" and "get_local_file_cache e ns st1 = Inl err'"
    using that by (rule fetch_config_by_namespace_read_raises)
  have cached: "cache (snd (fetch_configuration e st)) (client_namespace st) \<noteq> None"
    if "get_local_file_cache e (client_namespace st) st = Inr data'"
    using that by (rule fetch_configuration_cache)
  from never cached status status_raises raises malformed fallback read_raises
  show ?thesis by blast
qed

theorem fetch_configuration_never_raises_witness:
  "fst (fetch_configuration (world HttpRaises HttpRaises) client0) = Inr () \<and>
   cache (snd (fetch_configuration (world HttpRaises HttpRaises) client0)) ''application'' \<noteq>
     None \<and>
   fetch_config_by_namespace (world HttpRaises (HttpResponse 500 None)) ''application'' client0 =
     (Inr (), update_cache ''application'' (JObj fmempty) client0) \<and>
   fetch_config_by_namespace (world HttpRaises (HttpResponse 500 None)) ''application''
     (client0\<lparr>disk := [(''app_configuration_application.txt'', NoAccess)]\<rparr>) =
     (Inl OSError, client0\<lparr>disk := [(''app_configuration_application.txt'', NoAccess)]\<rparr>) \<and>
   cache (snd (fetch_config_by_namespace
       (world (HttpResponse 200 (Some (JArr [service ''http://a/'', service ''http://b/''])))
          HttpRaises)
       ''application'' client0)) ''application'' = Some (JObj fmempty) \<and>
   fst (fetch_config_by_namespace
       (world (HttpResponse 200 (Some (JArr [service ''http://a/'', service ''http://b/''])))
          HttpRaises)
       ''application'' client0) = Inr () \<and>
   fst (fetch_config_by_namespace
       (world (HttpResponse 200 (Some (JArr [service ''http://a/'', service ''http://b/''])))
          (HttpResponse 200 None))
       ''application'' client0) = Inr () \<and>
   fetch_config_by_namespace
       (world (HttpResponse 200 (Some (JArr [service ''http://a/'', service ''http://b/''])))
          HttpRaises)
       ''application''
       (client0\<lparr>disk := [(''app_configuration_application.txt'', NoAccess)]\<rparr>) =
     (Inl OSError, client0\<lparr>disk := [(''app_configuration_application.txt'', NoAccess)]\<rparr>) \<and>
   fst (fetch_configuration (world HttpRaises (HttpResponse 500 None))
     (client0\<lparr>disk := [(''app_configuration_application.txt'', NoAccess)]\<rparr>)) = Inr () \<and>
   cache (snd (fetch_configuration (world HttpRaises (HttpResponse 500 None))
     (client0\<lparr>disk := [(''app_configuration_application.txt'', NoAccess)]\<rparr>)))
     ''application'' = None"
proof -
  let ?dir = "HttpResponse 200 (Some (JArr [service ''http://a/'', service ''http://b/'']))"
  let ?e1 = "world HttpRaises HttpRaises"
  let ?e2 = "world HttpRaises (HttpResponse 500 None)"
  let ?e3 = "world ?dir HttpRaises"
  let ?e4 = "world ?dir (HttpResponse 200 None)"
  let ?locked = "client0\<lparr>disk := [(''app_configuration_application.txt'', NoAccess)]\<rparr>"
  have l: "\<And>d c. get_local_file_cache (world d c) ''application'' client0 = Inr (JObj fmempty)"
    by (simp add: get_local_file_cache_def open_read_def open_error_def directory_error_def
        parent_directory_def cache_file_name_def world_def client0_def)
  have n: "\<And>d c. get_local_file_cache (world d c) ''application'' ?locked = Inl OSError"
    by (simp add: get_local_file_cache_def open_read_def open_error_def directory_error_def
        parent_directory_def cache_file_name_def world_def client0_def)
  have g2: "\<And>st. http_client_meta_url st = ''http://a/'' \<Longrightarrow> app_id st = ''app'' \<Longrightarrow>
      cluster st = ''default'' \<Longrightarrow>
      http_get ?e2 (http_client_meta_url st @ ''configs/'' @ app_id st @ ''/'' @
        cluster st @ ''/'' @ ''application'') = HttpResponse 500 None"
    by (simp add: world_def)
  have g3: "\<And>st. http_client_meta_url st = ''http://a/'' \<Longrightarrow> app_id st = ''app'' \<Longrightarrow>
      cluster st = ''default'' \<Longrightarrow>
      http_get ?e3 (http_client_meta_url st @ ''configs/'' @ app_id st @ ''/'' @
        cluster st @ ''/'' @ ''application'') = HttpRaises"
    by (simp add: world_def)
  have g4: "http_get ?e4 (http_client_meta_url client0 @ ''configs/'' @ app_id client0 @ ''/'' @
      cluster client0 @ ''/'' @ ''application'') = HttpResponse 200 None"
    by (simp add: world_def client0_def)
  have u: "\<And>answer. fst (update_config_server (world ?dir answer) (config_server_url client0)
      (update_cache ''application'' (JObj fmempty) client0)) = Inr (JStr ''http://b/'')"
    by (simp add: update_config_server_def get_service_conf_def world_def client0_def
        update_cache_def service_def py_ne_def)
  have c0: "http_client_meta_url client0 = ''http://a/''" "app_id client0 = ''app''"
    "cluster client0 = ''default''"
    by (simp_all add: client0_def)
  have c1: "http_client_meta_url ?locked = ''http://a/''" "app_id ?locked = ''app''"
    "cluster ?locked = ''default''"
    by (simp_all add: client0_def)
  from fetch_configuration_never_raises[of ?e1 client0]
  have "fst (fetch_configuration ?e1 client0) = Inr ()" by simp
  moreover from fetch_configuration_never_raises[where e="?e1" and st=client0
      and data'="JObj fmempty"] l[of HttpRaises HttpRaises]
  have "cache (snd (fetch_configuration ?e1 client0)) ''application'' \<noteq> None"
    by (simp add: client0_def)
  moreover from fetch_configuration_never_raises[where e="?e2" and st=client0
      and ns="''application''" and code=500 and body=None and data="JObj fmempty"]
    g2[OF c0] l[of HttpRaises "HttpResponse 500 None"]
  have "fetch_config_by_namespace ?e2 ''application'' client0 =
     (Inr (), update_cache ''application'' (JObj fmempty) client0)" by simp
  moreover from fetch_configuration_never_raises[where e="?e2" and st="?locked"
      and ns="''application''" and code=500 and body=None and err'=OSError]
    g2[OF c1] n[of HttpRaises "HttpResponse 500 None"]
  have "fetch_config_by_namespace ?e2 ''application'' ?locked = (Inl OSError, ?locked)"
    by simp
  moreover from fetch_configuration_never_raises[where e="?e3" and st=client0 and ns="''application''"
      and data="JObj fmempty" and err=RequestException and ?st1.0=client0]
    g3[OF c0] l[of ?dir HttpRaises] u[of HttpRaises]
  have "cache (snd (fetch_config_by_namespace ?e3 ''application'' client0)) ''application'' =
      Some (JObj fmempty) \<and>
     fst (fetch_config_by_namespace ?e3 ''application'' client0) = Inr ()" by simp
  moreover from fetch_configuration_never_raises[where e="?e4" and st=client0 and ns="''application''"
      and data="JObj fmempty" and err=JSONDecodeError and ?st1.0=client0] g4
      l[of ?dir "HttpResponse 200 None"] u[of "HttpResponse 200 None"]
  have "fst (fetch_config_by_namespace ?e4 ''application'' client0) = Inr ()" by simp
  moreover from fetch_configuration_never_raises[where e="?e3" and st="?locked"
      and ns="''application''" and err=RequestException and ?st1.0="?locked" and err'=OSError]
    g3[OF c1] n[of ?dir HttpRaises]
  have "fetch_config_by_namespace ?e3 ''application'' ?locked = (Inl OSError, ?locked)"
    by simp
  moreover from fetch_configuration_never_raises[of ?e2 ?locked]
  have "fst (fetch_configuration ?e2 ?locked) = Inr ()" by simp
  moreover have "cache (snd (fetch_configuration ?e2 ?locked)) ''application'' = None"
    by (simp add: fetch_configuration_def fetch_config_by_namespace_def fetch_remote_def Let_def
        get_local_file_cache_def open_read_def open_error_def directory_error_def
        parent_directory_def cache_file_name_def load_local_cache_file_def listdir_def
        isfile_def splitext_def world_def client0_def)
  ultimately show ?thesis by simp
qed

text \<open>
  The claim C1 as stated fails for \<^verbatim>\<open>fetch_config_by_namespace\<close>: the config server
  \<^verbatim>\<open>http://a/\<close> cannot be reached and the directory lists no other server, so the
  failover after the fallback raises \<^verbatim>\<open>IndexError\<close>, which leaves the function.
\<close>

theorem fetch_config_by_namespace_raises_counterexample:
  "fst (fetch_config_by_namespace
     (world (HttpResponse 200 (Some (JArr [service ''http://a/'']))) HttpRaises)
     ''application'' client0) = Inl IndexError"
  by (simp add: fetch_config_by_namespace_def fetch_remote_def world_def client0_def Let_def
      get_local_file_cache_def open_read_def open_error_def directory_error_def parent_directory_def
      cache_file_name_def update_cache_def
      update_config_server_def get_service_conf_def service_def py_ne_def)

end
